theory Spec2Isabelle
  imports Main
begin

section \<open>JavaScript values used by the install prompt\<close>

text \<open>
  A JavaScript string is a sequence of UTF-16 code units; a code unit is a \<open>nat\<close>.
  \<open>js_str\<close> turns an ASCII literal into such a sequence.
\<close>

type_synonym jsstring = "nat list"

definition js_str :: "string \<Rightarrow> jsstring" where
  "js_str s = map of_char s"

text \<open>
  \<open>parseInt\<close> yields either \<open>NaN\<close> or an integer-valued number, and \<open>Date.now()\<close> is an
  integer number of milliseconds. Numbers are therefore modelled as \<open>NaN\<close> or a mathematical
  integer. (A double rounds a digit string beyond \<open>2^53\<close>; such a value is further from any
  time stamp \<open>Date.now()\<close> can return than the dismissal durations, so the comparison in
  \<open>isInstallDismissed\<close> has the same result on the rounded and on the exact value.)
\<close>

datatype jsnum = NaN | Num int

text \<open>The white space and line terminator code units that \<open>parseInt\<close> skips.\<close>

definition isWhiteSpace :: "nat \<Rightarrow> bool" where
  "isWhiteSpace c =
     (c \<in> set [9, 10, 11, 12, 13, 32, 160, 5760, 8232, 8233, 8239, 8287, 12288, 65279]
      \<or> (8192 \<le> c \<and> c \<le> 8202))"

definition isDigit :: "nat \<Rightarrow> bool" where
  "isDigit c = (48 \<le> c \<and> c \<le> 57)"

definition digits_value :: "nat list \<Rightarrow> int" where
  "digits_value ds = foldl (\<lambda>a d. 10 * a + int (d - 48)) 0 ds"

text \<open>
  \<open>parseInt(s, 10)\<close>: skip leading white space, read an optional sign, take the longest
  prefix of decimal digits; no digit gives \<open>NaN\<close>. With radix 10 no \<open>0x\<close> prefix is
  stripped.
\<close>

definition parseInt10 :: "jsstring \<Rightarrow> jsnum" where
  "parseInt10 s =
     (let s1 = dropWhile isWhiteSpace s;
          sign = (case s1 of c # _ \<Rightarrow> if c = 45 then - 1 else 1 | [] \<Rightarrow> 1);
          s2 = (case s1 of c # r \<Rightarrow> if c = 45 \<or> c = 43 then r else s1 | [] \<Rightarrow> s1);
          z = takeWhile isDigit s2
      in if z = [] then NaN else Num (sign * digits_value z))"

text \<open>\<open>a - b\<close> and \<open>a > b\<close> on numbers: \<open>NaN\<close> propagates, and compares false.\<close>

fun js_minus :: "jsnum \<Rightarrow> jsnum \<Rightarrow> jsnum" where
  "js_minus (Num a) (Num b) = Num (a - b)"
| "js_minus _ _ = NaN"

fun js_greater :: "jsnum \<Rightarrow> jsnum \<Rightarrow> bool" where
  "js_greater (Num a) (Num b) = (a > b)"
| "js_greater _ _ = False"

text \<open>
  \<open>Number.prototype.toString\<close> on an integer (below \<open>10^21\<close> in magnitude, as every time
  stamp is): the decimal digits, with a leading minus sign for a negative number.
\<close>

fun digits_of :: "nat \<Rightarrow> nat list" where
  "digits_of n = (if n < 10 then [48 + n] else digits_of (n div 10) @ [48 + n mod 10])"

definition number_toString :: "int \<Rightarrow> jsstring" where
  "number_toString n = (if n < 0 then 45 # digits_of (nat (- n)) else digits_of (nat n))"

section \<open>Local storage\<close>

type_synonym storage = "string \<Rightarrow> jsstring option"

definition getItem :: "storage \<Rightarrow> string \<Rightarrow> jsstring option" where
  "getItem st k = st k"

definition setItem :: "storage \<Rightarrow> string \<Rightarrow> jsstring \<Rightarrow> storage" where
  "setItem st k v = st(k \<mapsto> v)"

definition removeItem :: "storage \<Rightarrow> string \<Rightarrow> storage" where
  "removeItem st k = st(k := None)"

section \<open>The two variants of the install prompt\<close>

text \<open>
  The repository holds two versions of the install prompt handler:
  \<open>Earlier\<close> is \<open>src/scripts/utils/install-prompt.js\<close>, \<open>Later\<close> is the second file
  (the one that also tests for Safari and shows manual instructions).
\<close>

datatype variant = Earlier | Later

definition INSTALL_DISMISSED_KEY :: string where
  "INSTALL_DISMISSED_KEY = ''installPromptDismissed''"

fun INSTALL_DISMISSED_DURATION :: "variant \<Rightarrow> int" where
  "INSTALL_DISMISSED_DURATION Earlier = 7 * 24 * 60 * 60 * 1000"
| "INSTALL_DISMISSED_DURATION Later = 3 * 24 * 60 * 60 * 1000"

section \<open>The platform, as the install prompt sees it\<close>

datatype exn = Thrown string | TypeError string

datatype 'a outcome = Rejects exn | Resolves 'a

text \<open>
  Everything a run does to the outside world, in the order it happens: console output,
  alerts, and each call made to the platform or to the remote API.
\<close>

record subscription =
  endpoint :: string
  keys :: string

record subscribe_options =
  userVisibleOnly :: bool
  applicationServerKey :: "nat list"

datatype event =
    ConsoleLog string
  | ConsoleError string
  | Alert string
  | PreventDefault nat
  | Prompt nat
  | RequestPermission
  | ServiceWorkerReady
  | GetSubscription
  | PushManagerSubscribe subscribe_options
  | SubscribePushNotification string string
  | UnsubscribePushNotification string
  | PushSubscriptionUnsubscribe subscription

text \<open>
  The browser facts the install prompt reads, and the answers of a captured
  \<open>beforeinstallprompt\<close> event (a handle, a \<open>nat\<close>) to \<open>prompt()\<close> and \<open>userChoice\<close>,
  which may depend on everything that happened before the call.
\<close>

record browser =
  userAgent :: string
  displayModeStandalone :: bool
  navigatorStandalone :: bool
  MSStream :: bool
  innerWidth :: int
  prompt_result :: "nat \<Rightarrow> event list \<Rightarrow> unit outcome"
  userChoice :: "nat \<Rightarrow> event list \<Rightarrow> string outcome"

subsection \<open>Regular expression tests on the user agent\<close>

definition ascii_lower :: "char \<Rightarrow> char" where
  "ascii_lower c =
     (if (65::nat) \<le> of_char c \<and> of_char c \<le> (90::nat) then char_of (of_char c + (32::nat)) else c)"

definition starts_with :: "string \<Rightarrow> string \<Rightarrow> bool" where
  "starts_with s p = (take (length p) s = p)"

fun includes_str :: "string \<Rightarrow> string \<Rightarrow> bool" where
  "includes_str [] p = (p = [])"
| "includes_str (c # cs) p = (starts_with (c # cs) p \<or> includes_str cs p)"

text \<open>\<open>/^((?!chrome|android).)*safari/i\<close> on a lower-cased string.\<close>

fun safari_regex :: "string \<Rightarrow> bool" where
  "safari_regex [] = False"
| "safari_regex (c # cs) =
     (starts_with (c # cs) ''safari''
      \<or> (\<not> starts_with (c # cs) ''chrome'' \<and> \<not> starts_with (c # cs) ''android''
         \<and> c \<noteq> CHR 0x0A \<and> c \<noteq> CHR 0x0D \<and> safari_regex cs))"

definition isAppInstalled :: "browser \<Rightarrow> bool" where
  "isAppInstalled b = (displayModeStandalone b \<or> navigatorStandalone b)"

definition isMobileDevice :: "variant \<Rightarrow> browser \<Rightarrow> bool" where
  "isMobileDevice v b =
     (list_ex (includes_str (map ascii_lower (userAgent b)))
        [''android'', ''webos'', ''iphone'', ''ipad'', ''ipod'', ''blackberry'', ''iemobile'',
         ''opera mini'']
      \<or> (v = Later \<and> innerWidth b \<le> 768))"

definition isIOS :: "browser \<Rightarrow> bool" where
  "isIOS b =
     (list_ex (includes_str (userAgent b)) [''iPad'', ''iPhone'', ''iPod''] \<and> \<not> MSStream b)"

definition isSafari :: "browser \<Rightarrow> bool" where
  "isSafari b = safari_regex (map ascii_lower (userAgent b))"

section \<open>The document\<close>

text \<open>
  An element has an identity (\<open>ref\<close>), a tag, an id (empty when it has none), a class
  list, its click listeners and its children. Text content and other attributes are left
  out. The document is the tree below \<open>document.body\<close>.
\<close>

datatype handler = DismissInstallPrompt | TriggerInstall

datatype element =
  Element (ref: nat) (tag: string) (eid: string) (classList: "string list")
    (clickListeners: "handler list") (children: "element list")

fun first_some :: "'a option list \<Rightarrow> 'a option" where
  "first_some [] = None"
| "first_some (Some x # _) = Some x"
| "first_some (None # xs) = first_some xs"

text \<open>\<open>document.getElementById\<close>: the first element with that id, in document order.\<close>

fun getElementById :: "string \<Rightarrow> element \<Rightarrow> element option" where
  "getElementById i (Element r t d cl ls ch) =
     (if d = i then Some (Element r t d cl ls ch) else first_some (map (getElementById i) ch))"

fun count_id :: "string \<Rightarrow> element \<Rightarrow> nat" where
  "count_id i (Element r t d cl ls ch) =
     (if d = i then 1 else 0) + sum_list (map (count_id i) ch)"

fun modify :: "nat \<Rightarrow> (string list \<Rightarrow> string list) \<Rightarrow> (handler list \<Rightarrow> handler list)
    \<Rightarrow> element \<Rightarrow> element" where
  "modify r fc fl (Element r' t d cl ls ch) =
     Element r' t d (if r' = r then fc cl else cl) (if r' = r then fl ls else ls)
       (map (modify r fc fl) ch)"

definition classList_add :: "nat \<Rightarrow> string \<Rightarrow> element \<Rightarrow> element" where
  "classList_add r c = modify r (\<lambda>cl. if c \<in> set cl then cl else cl @ [c]) id"

definition classList_remove :: "nat \<Rightarrow> string \<Rightarrow> element \<Rightarrow> element" where
  "classList_remove r c = modify r (removeAll c) id"

definition addEventListener_click :: "nat \<Rightarrow> handler \<Rightarrow> element \<Rightarrow> element" where
  "addEventListener_click r h = modify r id (\<lambda>ls. if h \<in> set ls then ls else ls @ [h])"

text \<open>\<open>node.remove()\<close>: the node with that identity leaves the tree, with its subtree.\<close>

fun remove_node :: "nat \<Rightarrow> element \<Rightarrow> element" where
  "remove_node r (Element r' t d cl ls ch) =
     Element r' t d cl ls (map (remove_node r) (filter (\<lambda>c. ref c \<noteq> r) ch))"

fun appendChild :: "element \<Rightarrow> element \<Rightarrow> element" where
  "appendChild (Element r t d cl ls ch) e = Element r t d cl ls (ch @ [e])"

section \<open>The install prompt handler\<close>

text \<open>
  Callbacks handed to \<open>setTimeout\<close> or \<open>requestAnimationFrame\<close>, and the rest of an
  \<open>async\<close> function suspended at an \<open>await\<close>, wait in \<open>pending\<close> until the platform
  runs them. The page state holds what the module and the platform keep between calls:
  local storage, the document, the module variable \<open>deferredPrompt\<close>, the pending
  callbacks, the events so far, the next unused element identity, and how many listeners
  \<open>initInstallPrompt\<close> has registered on the window.
\<close>

datatype schedule = Timeout nat | AnimationFrame | UserChoice nat

datatype task = AddVisibleClass nat | RemoveNode nat | FallbackBanner | ResumeTriggerInstall nat

record page =
  localStorage :: storage
  body :: element
  deferredPrompt :: "nat option"
  pending :: "(schedule \<times> task) list"
  effects :: "event list"
  fresh :: nat
  beforeinstallprompt_listeners :: nat
  appinstalled_listeners :: nat

definition console_log :: "string \<Rightarrow> page \<Rightarrow> page" where
  "console_log m s = s\<lparr>effects := effects s @ [ConsoleLog m]\<rparr>"

definition alert :: "string \<Rightarrow> page \<Rightarrow> page" where
  "alert m s = s\<lparr>effects := effects s @ [Alert m]\<rparr>"

definition setTimeout :: "task \<Rightarrow> nat \<Rightarrow> page \<Rightarrow> page" where
  "setTimeout t ms s = s\<lparr>pending := pending s @ [(Timeout ms, t)]\<rparr>"

definition requestAnimationFrame :: "task \<Rightarrow> page \<Rightarrow> page" where
  "requestAnimationFrame t s = s\<lparr>pending := pending s @ [(AnimationFrame, t)]\<rparr>"

text \<open>
  \<open>isInstallDismissed\<close> at time \<open>now\<close> (the value of \<open>Date.now()\<close>). \<open>!dismissedTime\<close>
  holds for \<open>null\<close> and for the empty string.
\<close>

definition isInstallDismissed :: "variant \<Rightarrow> int \<Rightarrow> page \<Rightarrow> bool \<times> page" where
  "isInstallDismissed v now s =
     (case getItem (localStorage s) INSTALL_DISMISSED_KEY of
        None \<Rightarrow> (False, s)
      | Some dismissedTime \<Rightarrow>
          if dismissedTime = [] then (False, s)
          else
            let dismissedAt = parseInt10 dismissedTime in
            if js_greater (js_minus (Num now) dismissedAt) (Num (INSTALL_DISMISSED_DURATION v))
            then (False, s\<lparr>localStorage := removeItem (localStorage s) INSTALL_DISMISSED_KEY\<rparr>)
            else (True, s))"

definition hideInstallBanner :: "page \<Rightarrow> page" where
  "hideInstallBanner s =
     (case getElementById ''install-banner'' (body s) of
        None \<Rightarrow> s
      | Some banner \<Rightarrow>
          setTimeout (RemoveNode (ref banner)) 300
            (s\<lparr>body := classList_remove (ref banner) ''install-banner--visible'' (body s)\<rparr>))"

definition dismissInstallPrompt :: "int \<Rightarrow> page \<Rightarrow> page" where
  "dismissInstallPrompt now s =
     hideInstallBanner
       (s\<lparr>localStorage := setItem (localStorage s) INSTALL_DISMISSED_KEY (number_toString now)\<rparr>)"

text \<open>
  The two banner contents, as the elements that \<open>innerHTML\<close> creates; \<open>r\<close> is the
  identity of the banner, its descendants take the identities after it. The later
  variant puts an icon into the install button.
\<close>

definition manual_content :: "nat \<Rightarrow> element list" where
  "manual_content r =
     [Element (r + 1) ''div'' [] [''install-banner__content''] []
        [Element (r + 2) ''div'' [] [''install-banner__icon''] []
           [Element (r + 3) ''img'' [] [] [] []],
         Element (r + 4) ''div'' [] [''install-banner__text''] []
           [Element (r + 5) ''strong'' [] [] [] [],
            Element (r + 6) ''p'' [] [] []
              [Element (r + 7) ''i'' [] [''fas'', ''fa-share-square''] [] []]],
         Element (r + 8) ''button'' ''install-banner-close'' [''install-banner__close''] []
           [Element (r + 9) ''i'' [] [''fas'', ''fa-times''] [] []]]]"

definition install_content :: "variant \<Rightarrow> nat \<Rightarrow> element list" where
  "install_content v r =
     [Element (r + 1) ''div'' [] [''install-banner__content''] []
        [Element (r + 2) ''div'' [] [''install-banner__icon''] []
           [Element (r + 3) ''img'' [] [] [] []],
         Element (r + 4) ''div'' [] [''install-banner__text''] []
           [Element (r + 5) ''strong'' [] [] [] [],
            Element (r + 6) ''p'' [] [] [] []],
         Element (r + 7) ''div'' [] [''install-banner__actions''] []
           [Element (r + 8) ''button'' ''install-banner-install''
              [''install-banner__btn'', ''install-banner__btn--primary''] []
              (if v = Later then [Element (r + 11) ''i'' [] [''fas'', ''fa-download''] [] []]
               else []),
            Element (r + 9) ''button'' ''install-banner-close'' [''install-banner__close''] []
              [Element (r + 10) ''i'' [] [''fas'', ''fa-times''] [] []]]]]"

text \<open>
  \<open>const btn = document.getElementById(i); if (btn) btn.addEventListener('click', h)\<close>
\<close>

definition listen_click :: "string \<Rightarrow> handler \<Rightarrow> page \<Rightarrow> page" where
  "listen_click i h s =
     (case getElementById i (body s) of
        Some btn \<Rightarrow> s\<lparr>body := addEventListener_click (ref btn) h (body s)\<rparr>
      | None \<Rightarrow> s)"

definition showInstallBanner :: "variant \<Rightarrow> browser \<Rightarrow> page \<Rightarrow> page" where
  "showInstallBanner v b s =
     (case getElementById ''install-banner'' (body s) of
        Some existingBanner \<Rightarrow> s
      | None \<Rightarrow>
          let s1 = (if v = Later then console_log ''[InstallPrompt] Showing install banner'' s
                    else s);
              r = fresh s1;
              banner = Element r ''div'' ''install-banner'' [''install-banner''] []
                (if isIOS b \<or> (v = Later \<and> isSafari b \<and> deferredPrompt s1 = None)
                 then manual_content r else install_content v r);
              s2 = s1\<lparr>fresh := r + 12, body := appendChild (body s1) banner\<rparr>;
              s3 = listen_click ''install-banner-close'' DismissInstallPrompt s2;
              s4 = listen_click ''install-banner-install'' TriggerInstall s3
          in if v = Earlier then requestAnimationFrame (AddVisibleClass r) s4
             else setTimeout (AddVisibleClass r) 100 s4)"

definition manual_instructions :: string where
  "manual_instructions =
     ''Untuk menginstall aplikasi:'' @ [CHR 0x0A, CHR 0x0A]
     @ ''1. Buka menu browser ('' @ [CHR 0xE2, CHR 0x8B, CHR 0xAE] @ '')'' @ [CHR 0x0A]
     @ ''2. Pilih '' @ [CHR 0x22] @ ''Install app'' @ [CHR 0x22] @ '' atau '' @ [CHR 0x22]
     @ ''Add to Home Screen'' @ [CHR 0x22]"

text \<open>
  \<open>triggerInstall\<close> is an \<open>async\<close> function: a call runs up to the \<open>await\<close> and
  returns to its caller; the rest runs when the awaited promise settles, and other code
  may run in between. \<open>triggerInstall\<close> is the part up to the \<open>await\<close>: with no handle
  it logs (and, in the later variant, alerts) and has returned; with a handle \<open>h\<close> the
  call \<open>h.prompt()\<close> is recorded, then it returns or throws, and the call is left
  awaiting \<open>h.userChoice\<close> with \<open>deferredPrompt\<close> unchanged.
  \<open>triggerInstall_resume\<close> is the part after the \<open>await\<close>, for the handle whose
  \<open>userChoice\<close> was awaited: a rejection leaves the function there; an outcome is logged,
  \<open>deferredPrompt\<close> is set to \<open>null\<close> and the banner is hidden.
\<close>

datatype call_state = Returned | Awaiting nat

definition triggerInstall :: "variant \<Rightarrow> browser \<Rightarrow> page \<Rightarrow> (exn + call_state) \<times> page" where
  "triggerInstall v b s =
     (case deferredPrompt s of
        None \<Rightarrow>
          (Inr Returned,
           if v = Earlier then console_log ''[InstallPrompt] No deferred prompt available'' s
           else alert manual_instructions
                  (console_log
                     ''[InstallPrompt] No deferred prompt available, showing manual instructions''
                     s))
      | Some h \<Rightarrow>
          let s1 = s\<lparr>effects := effects s @ [Prompt h]\<rparr> in
          (case prompt_result b h (effects s) of
             Rejects e \<Rightarrow> (Inl e, s1)
           | Resolves _ \<Rightarrow>
               (Inr (Awaiting h),
                s1\<lparr>pending := pending s1 @ [(UserChoice h, ResumeTriggerInstall h)]\<rparr>)))"

definition triggerInstall_resume :: "variant \<Rightarrow> browser \<Rightarrow> nat \<Rightarrow> page \<Rightarrow> (exn + unit) \<times> page"
  where
  "triggerInstall_resume v b h s =
     (case userChoice b h (effects s) of
        Rejects e \<Rightarrow> (Inl e, s)
      | Resolves outcome \<Rightarrow>
          (Inr (),
           hideInstallBanner
             ((console_log (''[InstallPrompt] User response: '' @ outcome) s)
                \<lparr>deferredPrompt := None\<rparr>)))"

text \<open>The callbacks: the timers, and the two window listeners of \<open>initInstallPrompt\<close>.\<close>

definition fallback_banner :: "variant \<Rightarrow> browser \<Rightarrow> int \<Rightarrow> page \<Rightarrow> page" where
  "fallback_banner v b now s =
     (if isAppInstalled b then s
      else
        let (dismissed, s1) = isInstallDismissed v now s in
        if dismissed then s1
        else if v = Earlier then showInstallBanner v b s1
        else if getElementById ''install-banner'' (body s1) \<noteq> None then s1
        else showInstallBanner v b
               (console_log ''[InstallPrompt] Showing fallback banner for mobile'' s1))"

fun run_task :: "variant \<Rightarrow> browser \<Rightarrow> int \<Rightarrow> task \<Rightarrow> page \<Rightarrow> page" where
  "run_task v b now (AddVisibleClass r) s =
     s\<lparr>body := classList_add r ''install-banner--visible'' (body s)\<rparr>"
| "run_task v b now (RemoveNode r) s = s\<lparr>body := remove_node r (body s)\<rparr>"
| "run_task v b now FallbackBanner s = fallback_banner v b now s"
| "run_task v b now (ResumeTriggerInstall h) s = snd (triggerInstall_resume v b h s)"

definition on_beforeinstallprompt :: "variant \<Rightarrow> browser \<Rightarrow> nat \<Rightarrow> page \<Rightarrow> page" where
  "on_beforeinstallprompt v b e s =
     showInstallBanner v b
       (console_log ''[InstallPrompt] beforeinstallprompt event captured''
          (s\<lparr>effects := effects s @ [PreventDefault e], deferredPrompt := Some e\<rparr>))"

definition on_appinstalled :: "page \<Rightarrow> page" where
  "on_appinstalled s =
     (hideInstallBanner (console_log ''[InstallPrompt] App was installed'' s))
       \<lparr>deferredPrompt := None\<rparr>"

definition initInstallPrompt :: "variant \<Rightarrow> browser \<Rightarrow> int \<Rightarrow> page \<Rightarrow> page" where
  "initInstallPrompt v b now s =
     (let s0 = (if v = Later then console_log ''[InstallPrompt] Initializing...'' s else s) in
      if isAppInstalled b then console_log ''[InstallPrompt] App already installed'' s0
      else if v = Earlier \<and> \<not> isMobileDevice v b
      then console_log ''[InstallPrompt] Not a mobile device'' s0
      else
        let (dismissed, s1) = isInstallDismissed v now s0 in
        if dismissed
        then console_log ''[InstallPrompt] Install prompt was recently dismissed'' s1
        else
          let s2 = s1\<lparr>beforeinstallprompt_listeners := beforeinstallprompt_listeners s1 + 1\<rparr>;
              s3 = (if v = Earlier then (if isIOS b then setTimeout FallbackBanner 3000 s2 else s2)
                    else (if isMobileDevice v b then setTimeout FallbackBanner 2000 s2 else s2))
          in s3\<lparr>appinstalled_listeners := appinstalled_listeners s3 + 1\<rparr>)"

text \<open>
  What can happen on the page, one step at a time: a call of one of the exported
  functions (the click listeners of the banner call \<open>dismissInstallPrompt\<close> and
  \<open>triggerInstall\<close>), up to its \<open>await\<close> if it has one; a pending callback, or the rest
  of a suspended call, run by the platform; or one of the two window events, which runs
  every listener registered for it.
\<close>

inductive step :: "variant \<Rightarrow> page \<Rightarrow> page \<Rightarrow> bool" for v :: variant where
  call_isInstallDismissed: "step v s (snd (isInstallDismissed v now s))"
| call_dismissInstallPrompt: "step v s (dismissInstallPrompt now s)"
| call_showInstallBanner: "step v s (showInstallBanner v b s)"
| call_hideInstallBanner: "step v s (hideInstallBanner s)"
| call_triggerInstall: "step v s (snd (triggerInstall v b s))"
| call_initInstallPrompt: "step v s (initInstallPrompt v b now s)"
| callback: "(sch, t) \<in> set (pending s) \<Longrightarrow>
     step v s (run_task v b now t (s\<lparr>pending := remove1 (sch, t) (pending s)\<rparr>))"
| beforeinstallprompt:
    "step v s ((on_beforeinstallprompt v b e ^^ beforeinstallprompt_listeners s) s)"
| appinstalled: "step v s ((on_appinstalled ^^ appinstalled_listeners s) s)"

definition banner_count :: "page \<Rightarrow> nat" where
  "banner_count s = count_id ''install-banner'' (body s)"

section \<open>The push notification helper\<close>

text \<open>
  The platform and the remote API, as the helper sees them. Each call answers by
  resolving or rejecting, and the answer may depend on everything that happened before
  the call. \<open>vapid_key_bytes\<close> is \<open>convertBase64ToUint8Array(VAPID_PUBLIC_KEY)\<close>, whose
  function and constant live outside this module: the bytes, or the exception it throws.
  The remote API resolves to a response with an \<open>ok\<close> field.
\<close>

datatype perm = Granted | Denied | Default

record response =
  ok :: bool

record platform =
  notification_in_window :: bool
  permission :: perm
  requestPermission :: "event list \<Rightarrow> perm outcome"
  serviceWorker_ready :: "event list \<Rightarrow> unit outcome"
  pushManager_getSubscription :: "event list \<Rightarrow> subscription option outcome"
  vapid_key_bytes :: "nat list outcome"
  pushManager_subscribe :: "subscribe_options \<Rightarrow> event list \<Rightarrow> subscription outcome"
  remote_subscribe :: "string \<Rightarrow> string \<Rightarrow> event list \<Rightarrow> response outcome"
  remote_unsubscribe :: "string \<Rightarrow> event list \<Rightarrow> response outcome"
  platform_unsubscribe :: "subscription \<Rightarrow> event list \<Rightarrow> bool outcome"

text \<open>
  A run threads the events so far and the one mutable local variable of the module,
  \<open>pushSubscription\<close> of \<open>subscribe\<close> (\<open>None\<close> is \<open>undefined\<close>). It ends with a value or
  with the exception that leaves the function.
\<close>

record frame =
  trace :: "event list"
  pushSubscription :: "subscription option"

type_synonym 'a prog = "frame \<Rightarrow> (exn + 'a) \<times> frame"

definition ret :: "'a \<Rightarrow> 'a prog" where
  "ret x = (\<lambda>s. (Inr x, s))"

definition throw :: "exn \<Rightarrow> 'a prog" where
  "throw e = (\<lambda>s. (Inl e, s))"

definition bind :: "'a prog \<Rightarrow> ('a \<Rightarrow> 'b prog) \<Rightarrow> 'b prog" where
  "bind m f = (\<lambda>s. case m s of (Inl e, s') \<Rightarrow> (Inl e, s') | (Inr x, s') \<Rightarrow> f x s')"

definition try_catch :: "'a prog \<Rightarrow> (exn \<Rightarrow> 'a prog) \<Rightarrow> 'a prog" where
  "try_catch m h = (\<lambda>s. case m s of (Inl e, s') \<Rightarrow> h e s' | (Inr x, s') \<Rightarrow> (Inr x, s'))"

definition emit :: "event \<Rightarrow> unit prog" where
  "emit ev = (\<lambda>s. (Inr (), s\<lparr>trace := trace s @ [ev]\<rparr>))"

text \<open>An awaited call: it is recorded, and its answer is the platform's at that point.\<close>

definition call :: "event \<Rightarrow> (event list \<Rightarrow> 'a outcome) \<Rightarrow> 'a prog" where
  "call ev answer =
     (\<lambda>s. (case answer (trace s) of Rejects e \<Rightarrow> Inl e | Resolves x \<Rightarrow> Inr x,
           s\<lparr>trace := trace s @ [ev]\<rparr>))"

definition assign_pushSubscription :: "subscription option \<Rightarrow> unit prog" where
  "assign_pushSubscription x = (\<lambda>s. (Inr (), s\<lparr>pushSubscription := x\<rparr>))"

definition isNotificationAvailable :: "platform \<Rightarrow> bool" where
  "isNotificationAvailable env = notification_in_window env"

definition isNotificationGranted :: "platform \<Rightarrow> bool" where
  "isNotificationGranted env = (permission env = Granted)"

definition isNotificationDenied :: "platform \<Rightarrow> bool" where
  "isNotificationDenied env = (permission env = Denied)"

definition requestNotificationPermission :: "bool \<Rightarrow> platform \<Rightarrow> bool prog" where
  "requestNotificationPermission silent env =
     (if \<not> isNotificationAvailable env
      then bind (emit (ConsoleError ''Notification API unsupported.'')) (\<lambda>_. ret False)
      else if isNotificationGranted env then ret True
      else if isNotificationDenied env
      then bind (if \<not> silent
                 then emit (ConsoleLog ''Notification permission was previously denied.'')
                 else ret ())
             (\<lambda>_. ret False)
      else bind (call RequestPermission (requestPermission env)) (\<lambda>status.
        if status = Denied
        then bind (if \<not> silent then emit (Alert ''Izin notifikasi ditolak.'') else ret ())
               (\<lambda>_. ret False)
        else if status = Default
        then bind (if \<not> silent then emit (Alert ''Izin notifikasi ditutup atau diabaikan.'')
                   else ret ())
               (\<lambda>_. ret False)
        else ret True))"

definition getPushSubscription :: "platform \<Rightarrow> subscription option prog" where
  "getPushSubscription env =
     bind (call ServiceWorkerReady (serviceWorker_ready env)) (\<lambda>registration.
       call GetSubscription (pushManager_getSubscription env))"

definition isCurrentPushSubscriptionAvailable :: "platform \<Rightarrow> bool prog" where
  "isCurrentPushSubscriptionAvailable env =
     bind (getPushSubscription env) (\<lambda>sub. ret (sub \<noteq> None))"

definition generateSubscribeOptions :: "platform \<Rightarrow> subscribe_options prog" where
  "generateSubscribeOptions env =
     (case vapid_key_bytes env of
        Rejects e \<Rightarrow> throw e
      | Resolves k \<Rightarrow> ret \<lparr>userVisibleOnly = True, applicationServerKey = k\<rparr>)"

definition autoSubscribe :: "platform \<Rightarrow> bool prog" where
  "autoSubscribe env =
     try_catch
       (if \<not> isNotificationAvailable env
        then bind (emit (ConsoleLog ''[AutoSubscribe] Notification API not available''))
               (\<lambda>_. ret False)
        else bind (isCurrentPushSubscriptionAvailable env) (\<lambda>subscribed.
          if subscribed
          then bind (emit (ConsoleLog
                             ''[AutoSubscribe] Already subscribed to push notifications''))
                 (\<lambda>_. ret True)
          else bind (requestNotificationPermission True env) (\<lambda>permissionGranted.
            if \<not> permissionGranted
            then bind (emit (ConsoleLog
                               ''[AutoSubscribe] Notification permission not granted''))
                   (\<lambda>_. ret False)
            else
              bind (emit (ConsoleLog
                            ''[AutoSubscribe] Subscribing to push notifications...'')) (\<lambda>_.
              bind (call ServiceWorkerReady (serviceWorker_ready env)) (\<lambda>registration.
              bind (generateSubscribeOptions env) (\<lambda>opts.
              bind (call (PushManagerSubscribe opts) (pushManager_subscribe env opts)) (\<lambda>sub.
              bind (call (SubscribePushNotification (endpoint sub) (keys sub))
                      (remote_subscribe env (endpoint sub) (keys sub))) (\<lambda>response.
                if \<not> ok response
                then
                  bind (emit (ConsoleError
                                ''[AutoSubscribe] Failed to register subscription on server:''))
                    (\<lambda>_.
                  bind (call (PushSubscriptionUnsubscribe sub) (platform_unsubscribe env sub))
                    (\<lambda>_. ret False))
                else
                  bind (emit (ConsoleLog
                                ''[AutoSubscribe] Successfully subscribed to push notifications''))
                    (\<lambda>_. ret True)))))))))
       (\<lambda>error. bind (emit (ConsoleError ''[AutoSubscribe] Error:'')) (\<lambda>_. ret False))"

definition failureSubscribeMessage :: string where
  "failureSubscribeMessage = ''Langganan push notification gagal diaktifkan.''"

definition successSubscribeMessage :: string where
  "successSubscribeMessage = ''Langganan push notification berhasil diaktifkan.''"

text \<open>
  \<open>await pushSubscription.unsubscribe()\<close> on the local variable of \<open>subscribe\<close>: reading
  a property of \<open>undefined\<close> throws a \<open>TypeError\<close>.
\<close>

definition pushSubscription_unsubscribe :: "platform \<Rightarrow> bool prog" where
  "pushSubscription_unsubscribe env =
     (\<lambda>s. case pushSubscription s of
             None \<Rightarrow>
               throw (TypeError ''Cannot read properties of undefined (reading unsubscribe)'') s
           | Some sub \<Rightarrow>
               call (PushSubscriptionUnsubscribe sub) (platform_unsubscribe env sub) s)"

definition subscribe :: "platform \<Rightarrow> unit prog" where
  "subscribe env =
     bind (requestNotificationPermission False env) (\<lambda>granted.
       if \<not> granted then ret ()
       else bind (isCurrentPushSubscriptionAvailable env) (\<lambda>available.
         if available then emit (Alert ''Sudah berlangganan push notification.'')
         else
           bind (emit (ConsoleLog ''Mulai berlangganan push notification...'')) (\<lambda>_.
           bind (assign_pushSubscription None) (\<lambda>_.
           try_catch
             (bind (call ServiceWorkerReady (serviceWorker_ready env)) (\<lambda>registration.
              bind (generateSubscribeOptions env) (\<lambda>opts.
              bind (call (PushManagerSubscribe opts) (pushManager_subscribe env opts)) (\<lambda>sub.
              bind (assign_pushSubscription (Some sub)) (\<lambda>_.
              bind (call (SubscribePushNotification (endpoint sub) (keys sub))
                      (remote_subscribe env (endpoint sub) (keys sub))) (\<lambda>response.
                if \<not> ok response
                then
                  bind (emit (ConsoleError ''subscribe: response:'')) (\<lambda>_.
                  bind (emit (Alert failureSubscribeMessage)) (\<lambda>_.
                  bind (pushSubscription_unsubscribe env) (\<lambda>_. ret ())))
                else emit (Alert successSubscribeMessage)))))))
             (\<lambda>error.
                bind (emit (ConsoleError ''subscribe: error:'')) (\<lambda>_.
                bind (emit (Alert failureSubscribeMessage)) (\<lambda>_.
                bind (pushSubscription_unsubscribe env) (\<lambda>_. ret ()))))))))"

definition failureUnsubscribeMessage :: string where
  "failureUnsubscribeMessage = ''Langganan push notification gagal dinonaktifkan.''"

definition successUnsubscribeMessage :: string where
  "successUnsubscribeMessage = ''Langganan push notification berhasil dinonaktifkan.''"

definition unsubscribe :: "platform \<Rightarrow> unit prog" where
  "unsubscribe env =
     try_catch
       (bind (getPushSubscription env) (\<lambda>current.
          case current of
            None \<Rightarrow>
              emit (Alert (''Tidak bisa memutus langganan push notification ''
                           @ ''karena belum berlangganan sebelumnya.''))
          | Some sub \<Rightarrow>
              bind (call (UnsubscribePushNotification (endpoint sub))
                      (remote_unsubscribe env (endpoint sub))) (\<lambda>response.
                if \<not> ok response
                then bind (emit (Alert failureUnsubscribeMessage))
                       (\<lambda>_. emit (ConsoleError ''unsubscribe: response:''))
                else
                  bind (call (PushSubscriptionUnsubscribe sub) (platform_unsubscribe env sub))
                    (\<lambda>unsubscribed.
                      if \<not> unsubscribed
                      then
                        bind (emit (Alert failureUnsubscribeMessage)) (\<lambda>_.
                        bind (call (SubscribePushNotification (endpoint sub) (keys sub))
                                (remote_subscribe env (endpoint sub) (keys sub)))
                          (\<lambda>_. ret ()))
                      else emit (Alert successUnsubscribeMessage)))))
       (\<lambda>error. bind (emit (Alert failureUnsubscribeMessage))
                  (\<lambda>_. emit (ConsoleError ''unsubscribe: error:'')))"

text \<open>What a run adds to the events, and two ways of reading a list of events.\<close>

definition emitted :: "'a prog \<Rightarrow> frame \<Rightarrow> event list" where
  "emitted m s = drop (length (trace s)) (trace (snd (m s)))"

fun is_alert :: "event \<Rightarrow> bool" where
  "is_alert (Alert _) = True"
| "is_alert _ = False"

fun is_log :: "event \<Rightarrow> bool" where
  "is_log (ConsoleLog _) = True"
| "is_log (ConsoleError _) = True"
| "is_log _ = False"

text \<open>\<open>precedes a b es\<close>: \<open>a\<close> occurs in \<open>es\<close> before the first \<open>b\<close> does.\<close>

definition precedes :: "event \<Rightarrow> event \<Rightarrow> event list \<Rightarrow> bool" where
  "precedes a b es = (a \<in> set (takeWhile (\<lambda>e. e \<noteq> b) es))"

section \<open>Concrete pages and browsers\<close>

text \<open>
  An empty page, a page holding a dismissal record, an Android Chrome browser whose
  install prompt is accepted, the page after that browser fired
  \<open>beforeinstallprompt\<close> with handle 7 (the banner is shown, the handle is held), and
  that page once the banner's pending callback has made it visible.
\<close>

definition page0 :: page where
  "page0 = \<lparr>localStorage = (\<lambda>_. None), body = Element 0 ''body'' [] [] [] [],
     deferredPrompt = None, pending = [], effects = [], fresh = 1,
     beforeinstallprompt_listeners = 0, appinstalled_listeners = 0\<rparr>"

definition page_dismissed :: "jsstring \<Rightarrow> page" where
  "page_dismissed d =
     page0\<lparr>localStorage := setItem (localStorage page0) INSTALL_DISMISSED_KEY d\<rparr>"

definition android_chrome :: browser where
  "android_chrome =
     \<lparr>userAgent = ''Mozilla/5.0 (Linux; Android 13) Chrome/120.0 Mobile Safari/537.36'',
      displayModeStandalone = False, navigatorStandalone = False, MSStream = False,
      innerWidth = 412, prompt_result = (\<lambda>_ _. Resolves ()),
      userChoice = (\<lambda>_ _. Resolves ''accepted'')\<rparr>"

definition page_prompted :: page where
  "page_prompted = on_beforeinstallprompt Later android_chrome 7 page0"




section \<open>Conditions on the platform, and what every run of a function yields\<close>

text \<open>
  The situations the properties below speak about. Permission is granted when the
  notification API is there and permission is granted already, or not yet decided and
  granted at every prompt; it is refused when it is not granted already and no prompt
  grants it. No subscription exists when the service worker is always ready and reports
  none; \<open>subscribed\<close> is the same with a subscription; \<open>never_subscribed\<close> says only that
  no subscription is ever reported. The platform subscribes when the key decodes and
  \<open>pushManager.subscribe\<close> always resolves to the subscription. The remote API refuses
  when it always resolves to \<open>{ok: false}\<close>.
\<close>

definition permission_granted :: "platform \<Rightarrow> bool" where
  "permission_granted env =
     (isNotificationAvailable env
      \<and> (permission env = Granted
         \<or> (permission env = Default \<and> (\<forall>h. requestPermission env h = Resolves Granted))))"

definition permission_refused :: "platform \<Rightarrow> bool" where
  "permission_refused env =
     (permission env \<noteq> Granted \<and> (\<forall>h. requestPermission env h \<noteq> Resolves Granted))"

definition not_subscribed :: "platform \<Rightarrow> bool" where
  "not_subscribed env =
     ((\<forall>h. serviceWorker_ready env h = Resolves ())
      \<and> (\<forall>h. pushManager_getSubscription env h = Resolves None))"

definition subscribed :: "platform \<Rightarrow> subscription \<Rightarrow> bool" where
  "subscribed env sub =
     ((\<forall>h. serviceWorker_ready env h = Resolves ())
      \<and> (\<forall>h. pushManager_getSubscription env h = Resolves (Some sub)))"

definition never_subscribed :: "platform \<Rightarrow> bool" where
  "never_subscribed env =
     (\<forall>h sub. pushManager_getSubscription env h \<noteq> Resolves (Some sub))"

definition platform_subscribes :: "platform \<Rightarrow> subscription \<Rightarrow> bool" where
  "platform_subscribes env sub =
     (\<exists>k. vapid_key_bytes env = Resolves k
          \<and> (\<forall>h. pushManager_subscribe env
                     \<lparr>userVisibleOnly = True, applicationServerKey = k\<rparr> h = Resolves sub))"

definition remote_subscribe_not_ok :: "platform \<Rightarrow> subscription \<Rightarrow> bool" where
  "remote_subscribe_not_ok env sub =
     (\<forall>h. remote_subscribe env (endpoint sub) (keys sub) h = Resolves \<lparr>ok = False\<rparr>)"

text \<open>
  What a successful \<open>autoSubscribe\<close> needs of the platform at some point of its history:
  permission that is, or can be, granted, and a subscription that the remote API accepts.
\<close>

definition permission_obtainable :: "platform \<Rightarrow> bool" where
  "permission_obtainable env =
     (isNotificationAvailable env
      \<and> (permission env = Granted
         \<or> (permission env = Default \<and> (\<exists>h. requestPermission env h = Resolves Granted))))"

definition remote_accepts :: "platform \<Rightarrow> bool" where
  "remote_accepts env =
     (\<exists>k h sub h'. vapid_key_bytes env = Resolves k
        \<and> pushManager_subscribe env \<lparr>userVisibleOnly = True, applicationServerKey = k\<rparr> h
            = Resolves sub
        \<and> remote_subscribe env (endpoint sub) (keys sub) h' = Resolves \<lparr>ok = True\<rparr>)"

text \<open>
  \<open>yields m Q\<close>: from every frame, the run \<open>m\<close> only adds events, and its result and the
  events it adds satisfy \<open>Q\<close>.
\<close>

definition yields :: "'a prog \<Rightarrow> (exn + 'a \<Rightarrow> event list \<Rightarrow> bool) \<Rightarrow> bool" where
  "yields m Q = (\<forall>s. \<exists>es. trace (snd (m s)) = trace s @ es \<and> Q (fst (m s)) es)"

section \<open>Concrete platforms\<close>

text \<open>
  A platform on which everything succeeds (permission granted, no subscription yet), and
  variations of it in which one collaborator fails.
\<close>

definition sub0 :: subscription where
  "sub0 = \<lparr>endpoint = ''https://push.example/s/1'', keys = ''p256dh+auth''\<rparr>"

definition opts0 :: subscribe_options where
  "opts0 = \<lparr>userVisibleOnly = True, applicationServerKey = [4, 17, 42]\<rparr>"

definition frame0 :: frame where
  "frame0 = \<lparr>trace = [], pushSubscription = None\<rparr>"

definition platform_ok :: platform where
  "platform_ok =
     \<lparr>notification_in_window = True, permission = Granted,
      requestPermission = (\<lambda>_. Resolves Granted),
      serviceWorker_ready = (\<lambda>_. Resolves ()),
      pushManager_getSubscription = (\<lambda>_. Resolves None),
      vapid_key_bytes = Resolves [4, 17, 42],
      pushManager_subscribe = (\<lambda>_ _. Resolves sub0),
      remote_subscribe = (\<lambda>_ _ _. Resolves \<lparr>ok = True\<rparr>),
      remote_unsubscribe = (\<lambda>_ _. Resolves \<lparr>ok = True\<rparr>),
      platform_unsubscribe = (\<lambda>_ _. Resolves True)\<rparr>"

definition platform_unavailable :: platform where
  "platform_unavailable = platform_ok\<lparr>notification_in_window := False\<rparr>"

definition platform_denied :: platform where
  "platform_denied =
     platform_ok\<lparr>permission := Default, requestPermission := (\<lambda>_. Resolves Denied)\<rparr>"

definition platform_subscribe_rejects :: platform where
  "platform_subscribe_rejects =
     platform_ok\<lparr>pushManager_subscribe := (\<lambda>_ _. Rejects (Thrown ''AbortError''))\<rparr>"

definition platform_remote_not_ok :: platform where
  "platform_remote_not_ok =
     platform_ok\<lparr>remote_subscribe := (\<lambda>_ _ _. Resolves \<lparr>ok = False\<rparr>)\<rparr>"

definition platform_remote_throws :: platform where
  "platform_remote_throws =
     platform_ok\<lparr>remote_subscribe := (\<lambda>_ _ _. Rejects (Thrown ''NetworkError''))\<rparr>"

definition platform_rollback_throws :: platform where
  "platform_rollback_throws =
     platform_remote_not_ok\<lparr>platform_unsubscribe := (\<lambda>_ _. Rejects (Thrown ''AbortError''))\<rparr>"

definition platform_subscribed :: platform where
  "platform_subscribed =
     platform_ok\<lparr>pushManager_getSubscription := (\<lambda>_. Resolves (Some sub0))\<rparr>"

definition platform_remote_unsubscribe_not_ok :: platform where
  "platform_remote_unsubscribe_not_ok =
     platform_subscribed\<lparr>remote_unsubscribe := (\<lambda>_ _. Resolves \<lparr>ok = False\<rparr>)\<rparr>"

definition platform_unsubscribe_false :: platform where
  "platform_unsubscribe_false =
     platform_subscribed\<lparr>platform_unsubscribe := (\<lambda>_ _. Resolves False)\<rparr>"

section \<open>The dismissal record\<close>

lemma parseInt10_Num_nonempty: "parseInt10 d = Num T \<Longrightarrow> d \<noteq> []"
  by (auto simp: parseInt10_def)

lemma parseInt10_1000: "parseInt10 (js_str ''1000'') = Num 1000"
  by (simp add: parseInt10_def js_str_def isWhiteSpace_def isDigit_def digits_value_def)

lemma parseInt10_abc: "parseInt10 (js_str ''abc'') = NaN"
  by (simp add: parseInt10_def js_str_def isWhiteSpace_def isDigit_def digits_value_def)

lemma parseInt10_empty: "parseInt10 [] = NaN"
  by (simp add: parseInt10_def)

lemma getItem_page_dismissed:
  "getItem (localStorage (page_dismissed d)) INSTALL_DISMISSED_KEY = Some d"
  by (simp add: page_dismissed_def page0_def setItem_def getItem_def)

lemma getItem_page0: "getItem (localStorage page0) INSTALL_DISMISSED_KEY = None"
  by (simp add: page0_def getItem_def)

text \<open>
  C1. Let the value stored under the dismissal key parse to the number \<open>T\<close>. Then
  \<open>isInstallDismissed\<close> returns true exactly when \<open>now - T \<le> TTL\<close>, and it leaves the
  page as it is in that case. When \<open>now - T > TTL\<close> it removes the record (and changes
  nothing else) before it returns false, so the next read, at any time, finds no record
  and returns false. With no record stored it returns false and writes nothing. The TTL is
  seven days in the earlier variant and three days in the later one.
\<close>

theorem isInstallDismissed_ttl:
  "(getItem (localStorage s) INSTALL_DISMISSED_KEY = Some d \<and> parseInt10 d = Num T \<longrightarrow>
      fst (isInstallDismissed v now s) = (now - T \<le> INSTALL_DISMISSED_DURATION v)
      \<and> (now - T \<le> INSTALL_DISMISSED_DURATION v \<longrightarrow> snd (isInstallDismissed v now s) = s)
      \<and> (now - T > INSTALL_DISMISSED_DURATION v \<longrightarrow>
           snd (isInstallDismissed v now s)
             = s\<lparr>localStorage := removeItem (localStorage s) INSTALL_DISMISSED_KEY\<rparr>
           \<and> getItem (localStorage (snd (isInstallDismissed v now s))) INSTALL_DISMISSED_KEY
               = None
           \<and> isInstallDismissed v now' (snd (isInstallDismissed v now s))
               = (False, snd (isInstallDismissed v now s))))
   \<and> (getItem (localStorage s) INSTALL_DISMISSED_KEY = None \<longrightarrow>
        isInstallDismissed v now s = (False, s))
   \<and> INSTALL_DISMISSED_DURATION Earlier = 7 * (24 * 60 * 60 * 1000)
   \<and> INSTALL_DISMISSED_DURATION Later = 3 * (24 * 60 * 60 * 1000)"
  using parseInt10_Num_nonempty[of d T]
  by (auto simp: isInstallDismissed_def Let_def getItem_def removeItem_def)

theorem isInstallDismissed_ttl_witness:
  "fst (isInstallDismissed Later 2000 (page_dismissed (js_str ''1000'')))
   \<and> snd (isInstallDismissed Later 2000 (page_dismissed (js_str ''1000'')))
       = page_dismissed (js_str ''1000'')
   \<and> \<not> fst (isInstallDismissed Later 259202000 (page_dismissed (js_str ''1000'')))
   \<and> getItem (localStorage (snd (isInstallDismissed Later 259202000
                                    (page_dismissed (js_str ''1000'')))))
        INSTALL_DISMISSED_KEY = None
   \<and> isInstallDismissed Later 259202001
        (snd (isInstallDismissed Later 259202000 (page_dismissed (js_str ''1000''))))
       = (False, snd (isInstallDismissed Later 259202000 (page_dismissed (js_str ''1000''))))
   \<and> isInstallDismissed Earlier 0 page0 = (False, page0)"
proof -
  have h: "getItem (localStorage (page_dismissed (js_str ''1000''))) INSTALL_DISMISSED_KEY
             = Some (js_str ''1000'')
           \<and> parseInt10 (js_str ''1000'') = Num 1000"
    by (simp add: getItem_page_dismissed parseInt10_1000)
  have le: "(2000::int) - 1000 \<le> INSTALL_DISMISSED_DURATION Later"
    by simp
  have gt: "INSTALL_DISMISSED_DURATION Later < (259202000::int) - 1000"
    by simp
  then have nle: "\<not> (259202000::int) - 1000 \<le> INSTALL_DISMISSED_DURATION Later"
    by linarith
  note recent = isInstallDismissed_ttl[where s = "page_dismissed (js_str ''1000'')"
        and d = "js_str ''1000''" and T = 1000 and v = Later and now = 2000,
        THEN conjunct1, THEN mp, OF h]
  note expired = isInstallDismissed_ttl[where s = "page_dismissed (js_str ''1000'')"
        and d = "js_str ''1000''" and T = 1000 and v = Later and now = 259202000
        and now' = 259202001, THEN conjunct1, THEN mp, OF h]
  note absent = isInstallDismissed_ttl[where s = page0 and v = Earlier and now = 0,
        THEN conjunct2, THEN conjunct1, THEN mp, OF getItem_page0]
  show ?thesis
    using recent expired absent le gt nle by blast
qed

text \<open>
  C9, as stated, fails: the empty string is a stored value that does not parse to a
  number, and for it \<open>isInstallDismissed\<close> returns false (the test \<open>!dismissedTime\<close> treats
  it as absent), leaving the record in place.
\<close>

theorem isInstallDismissed_empty_string_counterexample:
  "getItem (localStorage (page_dismissed [])) INSTALL_DISMISSED_KEY = Some []
   \<and> parseInt10 [] = NaN
   \<and> isInstallDismissed Earlier 0 (page_dismissed []) = (False, page_dismissed [])
   \<and> isInstallDismissed Later 0 (page_dismissed []) = (False, page_dismissed [])"
  by (simp add: getItem_page_dismissed parseInt10_empty isInstallDismissed_def)

text \<open>
  C9, amended. For every stored dismissal value that is not the empty string and does
  not parse to a number, \<open>isInstallDismissed\<close> returns true at every current time and
  leaves the page, and so the record, as it is.
\<close>

theorem isInstallDismissed_nan:
  "getItem (localStorage s) INSTALL_DISMISSED_KEY = Some d \<and> d \<noteq> [] \<and> parseInt10 d = NaN \<longrightarrow>
     isInstallDismissed v now s = (True, s)"
  by (simp add: isInstallDismissed_def)

theorem isInstallDismissed_nan_witness:
  "isInstallDismissed Earlier 1762000000000 (page_dismissed (js_str ''abc''))
     = (True, page_dismissed (js_str ''abc''))
   \<and> isInstallDismissed Later 0 (page_dismissed (js_str ''abc''))
     = (True, page_dismissed (js_str ''abc''))"
proof -
  have h: "getItem (localStorage (page_dismissed (js_str ''abc''))) INSTALL_DISMISSED_KEY
             = Some (js_str ''abc'')
           \<and> js_str ''abc'' \<noteq> [] \<and> parseInt10 (js_str ''abc'') = NaN"
    by (simp add: getItem_page_dismissed parseInt10_abc) (simp add: js_str_def)
  show ?thesis
    using isInstallDismissed_nan[where s = "page_dismissed (js_str ''abc'')"
        and d = "js_str ''abc''" and v = Earlier and now = 1762000000000, THEN mp, OF h]
      isInstallDismissed_nan[where s = "page_dismissed (js_str ''abc'')"
        and d = "js_str ''abc''" and v = Later and now = 0, THEN mp, OF h]
    by blast
qed

section \<open>The banner\<close>

lemma first_some_None_iff: "first_some xs = None \<longleftrightarrow> (\<forall>x \<in> set xs. x = None)"
  by (induction xs rule: first_some.induct) auto

lemma getElementById_None_iff: "getElementById i e = None \<longleftrightarrow> count_id i e = 0"
  by (induction e) (auto simp: first_some_None_iff)

lemma count_id_modify: "count_id i (modify r fc fl e) = count_id i e"
  by (induction e) (simp add: comp_def cong: map_cong)

lemma sum_list_filter_le: "sum_list (map f (filter P xs)) \<le> sum_list (map (f::'a \<Rightarrow> nat) xs)"
  by (induction xs) auto

lemma count_id_remove_node: "count_id i (remove_node r e) \<le> count_id i e"
proof (induction e)
  case (Element r' t d cl ls ch)
  have "sum_list (map (count_id i) (map (remove_node r) (filter (\<lambda>c. ref c \<noteq> r) ch)))
        \<le> sum_list (map (count_id i) (filter (\<lambda>c. ref c \<noteq> r) ch))"
    unfolding map_map using Element by (intro sum_list_mono) auto
  also have "\<dots> \<le> sum_list (map (count_id i) ch)" by (rule sum_list_filter_le)
  finally show ?case by simp
qed

lemma count_id_appendChild: "count_id i (appendChild e x) = count_id i e + count_id i x"
  by (cases e) simp

lemma banner_count_console_log [simp]: "banner_count (console_log m s) = banner_count s"
  by (simp add: banner_count_def console_log_def)

lemma banner_count_alert [simp]: "banner_count (alert m s) = banner_count s"
  by (simp add: banner_count_def alert_def)

lemma banner_count_setTimeout [simp]: "banner_count (setTimeout t ms s) = banner_count s"
  by (simp add: banner_count_def setTimeout_def)

lemma banner_count_requestAnimationFrame [simp]:
  "banner_count (requestAnimationFrame t s) = banner_count s"
  by (simp add: banner_count_def requestAnimationFrame_def)

lemma banner_count_listen_click [simp]: "banner_count (listen_click i h s) = banner_count s"
  by (simp add: banner_count_def listen_click_def addEventListener_click_def count_id_modify
        split: option.split)

lemma banner_count_body_update [simp]:
  "banner_count (s\<lparr>body := x\<rparr>) = count_id ''install-banner'' x"
  by (simp add: banner_count_def)

lemma banner_count_other_update [simp]:
  "banner_count (s\<lparr>fresh := n\<rparr>) = banner_count s"
  "banner_count (s\<lparr>localStorage := st\<rparr>) = banner_count s"
  "banner_count (s\<lparr>deferredPrompt := dp\<rparr>) = banner_count s"
  "banner_count (s\<lparr>effects := es\<rparr>) = banner_count s"
  "banner_count (s\<lparr>pending := ts\<rparr>) = banner_count s"
  "banner_count (s\<lparr>beforeinstallprompt_listeners := n\<rparr>) = banner_count s"
  "banner_count (s\<lparr>appinstalled_listeners := n\<rparr>) = banner_count s"
  by (simp_all add: banner_count_def)

lemma body_console_log [simp]: "body (console_log m s) = body s"
  by (simp add: console_log_def)

lemma count_id_banner_manual:
  "count_id ''install-banner'' (Element r t ''install-banner'' cl ls (manual_content r')) = 1"
  by (simp add: manual_content_def)

lemma count_id_banner_install:
  "count_id ''install-banner'' (Element r t ''install-banner'' cl ls (install_content v r')) = 1"
  by (simp add: install_content_def)

lemma showInstallBanner_noop:
  "getElementById ''install-banner'' (body s) \<noteq> None \<Longrightarrow> showInstallBanner v b s = s"
  by (auto simp: showInstallBanner_def)

lemma banner_count_showInstallBanner:
  "banner_count (showInstallBanner v b s) = (if banner_count s = 0 then 1 else banner_count s)"
proof (cases "getElementById ''install-banner'' (body s)")
  case None
  then have z: "count_id ''install-banner'' (body s) = 0"
    by (simp add: getElementById_None_iff)
  then have z': "banner_count s = 0"
    by (simp add: banner_count_def)
  show ?thesis
    by (simp add: showInstallBanner_def Let_def None z z' count_id_appendChild
          count_id_banner_manual count_id_banner_install del: count_id.simps)
next
  case (Some e)
  then have "banner_count s \<noteq> 0"
    using getElementById_None_iff[of "''install-banner''" "body s"]
    by (simp add: banner_count_def)
  then show ?thesis
    by (simp add: showInstallBanner_def Some)
qed

lemma banner_count_hideInstallBanner [simp]:
  "banner_count (hideInstallBanner s) = banner_count s"
  by (simp add: hideInstallBanner_def classList_remove_def count_id_modify
        banner_count_def[of s] split: option.split)

lemma banner_count_isInstallDismissed [simp]:
  "banner_count (snd (isInstallDismissed v now s)) = banner_count s"
  by (simp add: isInstallDismissed_def Let_def split: option.split)

lemma isInstallDismissed_count:
  "isInstallDismissed v now s = (d, s1) \<Longrightarrow> banner_count s1 = banner_count s"
  using banner_count_isInstallDismissed[of v now s] by simp

lemma banner_count_dismissInstallPrompt [simp]:
  "banner_count (dismissInstallPrompt now s) = banner_count s"
  by (simp add: dismissInstallPrompt_def)

lemma banner_count_triggerInstall [simp]:
  "banner_count (snd (triggerInstall v b s)) = banner_count s"
  by (simp add: triggerInstall_def Let_def split: option.split outcome.split)

lemma banner_count_triggerInstall_resume [simp]:
  "banner_count (snd (triggerInstall_resume v b h s)) = banner_count s"
  by (simp add: triggerInstall_resume_def split: outcome.split)

lemma fallback_banner_inv:
  "banner_count s \<le> 1 \<Longrightarrow> banner_count (fallback_banner v b now s) \<le> 1"
  by (cases "isInstallDismissed v now s")
     (use banner_count_isInstallDismissed[of v now s] in
       \<open>auto simp: fallback_banner_def banner_count_showInstallBanner
          simp del: banner_count_isInstallDismissed\<close>)

lemma run_task_inv:
  assumes "banner_count s \<le> 1"
  shows "banner_count (run_task v b now t s) \<le> 1"
proof (cases t)
  case (AddVisibleClass r)
  then show ?thesis
    using assms by (simp add: classList_add_def count_id_modify banner_count_def[of s])
next
  case (RemoveNode r)
  then show ?thesis
    using assms count_id_remove_node[of "''install-banner''" r "body s"]
    by (simp add: banner_count_def[of s])
next
  case FallbackBanner
  show ?thesis
    unfolding FallbackBanner run_task.simps by (rule fallback_banner_inv[OF assms])
next
  case (ResumeTriggerInstall h)
  then show ?thesis
    using assms by simp
qed

lemma banner_count_initInstallPrompt [simp]:
  "banner_count (initInstallPrompt v b now s) = banner_count s"
  by (auto simp: initInstallPrompt_def Let_def split: prod.split
        dest!: isInstallDismissed_count)

lemma on_beforeinstallprompt_inv:
  "banner_count s \<le> 1 \<Longrightarrow> banner_count (on_beforeinstallprompt v b e s) \<le> 1"
  by (simp add: on_beforeinstallprompt_def banner_count_showInstallBanner)

lemma banner_count_on_appinstalled [simp]:
  "banner_count (on_appinstalled s) = banner_count s"
  by (simp add: on_appinstalled_def)

lemma funpow_inv: "(\<And>s. P s \<Longrightarrow> P (f s)) \<Longrightarrow> P s \<Longrightarrow> P ((f ^^ n) s)"
  by (induction n) auto

lemma step_inv: "step v s s' \<Longrightarrow> banner_count s \<le> 1 \<Longrightarrow> banner_count s' \<le> 1"
proof (induction rule: step.induct)
  case (callback sch t s b now)
  then show ?case by (intro run_task_inv) simp
next
  case (beforeinstallprompt s b e)
  then show ?case
    by (intro funpow_inv[where P = "\<lambda>s. banner_count s \<le> 1"] on_beforeinstallprompt_inv)
next
  case (appinstalled s)
  then show ?case
    by (intro funpow_inv[where P = "\<lambda>s. banner_count s \<le> 1"]) simp_all
qed (simp_all add: banner_count_showInstallBanner)

lemma steps_inv:
  "(step v)\<^sup>*\<^sup>* s s' \<Longrightarrow> banner_count s \<le> 1 \<Longrightarrow> banner_count s' \<le> 1"
proof (induction rule: rtranclp_induct)
  case base
  then show ?case .
next
  case (step y z)
  then show ?case using step_inv[of v y z] by blast
qed

lemma fold_showInstallBanner:
  "banner_count s \<le> 1 \<Longrightarrow>
   banner_count (fold (showInstallBanner v) bs (showInstallBanner v b s)) = 1"
  by (induction bs arbitrary: b s) (auto simp: banner_count_showInstallBanner)

text \<open>
  C7. \<open>showInstallBanner\<close> changes nothing when the document already has an element with
  id \<open>install-banner\<close>. From a document with at most one banner, two calls in succession,
  and any longer run of calls (in whatever browser state each is made), leave exactly one
  banner element. Every step of the page (each exported function, each pending callback,
  each window event) keeps the number of banner elements at most one, and so does every
  sequence of steps.
\<close>

theorem showInstallBanner_singleton:
  "(getElementById ''install-banner'' (body s) \<noteq> None \<longrightarrow> showInstallBanner v b s = s)
   \<and> (banner_count s \<le> 1 \<longrightarrow>
        banner_count (showInstallBanner v b' (showInstallBanner v b s)) = 1
        \<and> banner_count (fold (showInstallBanner v) bs (showInstallBanner v b s)) = 1)
   \<and> (banner_count s \<le> 1 \<and> step v s s' \<longrightarrow> banner_count s' \<le> 1)
   \<and> (banner_count s \<le> 1 \<and> (step v)\<^sup>*\<^sup>* s s'' \<longrightarrow> banner_count s'' \<le> 1)"
proof (intro conjI impI)
  assume "getElementById ''install-banner'' (body s) \<noteq> None"
  then show "showInstallBanner v b s = s" by (rule showInstallBanner_noop)
next
  assume "banner_count s \<le> 1"
  then show "banner_count (showInstallBanner v b' (showInstallBanner v b s)) = 1"
    by (simp add: banner_count_showInstallBanner)
next
  assume "banner_count s \<le> 1"
  then show "banner_count (fold (showInstallBanner v) bs (showInstallBanner v b s)) = 1"
    by (rule fold_showInstallBanner)
next
  assume "banner_count s \<le> 1 \<and> step v s s'"
  then show "banner_count s' \<le> 1" using step_inv by blast
next
  assume "banner_count s \<le> 1 \<and> (step v)\<^sup>*\<^sup>* s s''"
  then show "banner_count s'' \<le> 1" using steps_inv by blast
qed

lemma banner_count_page0: "banner_count page0 = 0"
  by code_simp

lemma banner_count_page_prompted: "banner_count page_prompted = 1"
  by code_simp

lemma getElementById_page_prompted:
  "getElementById ''install-banner'' (body page_prompted) \<noteq> None"
  by code_simp

lemma steps_page0_hidden:
  "(step Later)\<^sup>*\<^sup>* page0
     (hideInstallBanner (showInstallBanner Later android_chrome page0))"
proof -
  have one: "step Later page0 (showInstallBanner Later android_chrome page0)"
    by (rule call_showInstallBanner)
  have two: "step Later (showInstallBanner Later android_chrome page0)
     (hideInstallBanner (showInstallBanner Later android_chrome page0))"
    by (rule call_hideInstallBanner)
  have "(step Later)\<^sup>*\<^sup>* page0 (showInstallBanner Later android_chrome page0)"
    using one by (rule r_into_rtranclp[where r = "step Later"])
  then show ?thesis
    using two by (rule rtranclp.rtrancl_into_rtrancl)
qed

theorem showInstallBanner_singleton_witness:
  "showInstallBanner Later android_chrome page_prompted = page_prompted
   \<and> banner_count (showInstallBanner Later android_chrome
                     (showInstallBanner Later android_chrome page0)) = 1
   \<and> banner_count (fold (showInstallBanner Later) [android_chrome, android_chrome]
                     (showInstallBanner Later android_chrome page0)) = 1
   \<and> banner_count (showInstallBanner Later android_chrome page0) \<le> 1
   \<and> banner_count (hideInstallBanner (showInstallBanner Later android_chrome page0)) \<le> 1"
proof -
  have le: "banner_count page0 \<le> 1" by (simp add: banner_count_page0)
  have st: "step Later page0 (showInstallBanner Later android_chrome page0)"
    by (rule call_showInstallBanner)
  show ?thesis
    using le st steps_page0_hidden getElementById_page_prompted
      showInstallBanner_singleton[where s = page_prompted and v = Later and b = android_chrome]
      showInstallBanner_singleton[where s = page0 and v = Later and b = android_chrome
        and b' = android_chrome and bs = "[android_chrome, android_chrome]"
        and s' = "showInstallBanner Later android_chrome page0"
        and s'' = "hideInstallBanner (showInstallBanner Later android_chrome page0)"]
    by blast
qed

section \<open>The install trigger\<close>

lemma effects_hideInstallBanner [simp]: "effects (hideInstallBanner s) = effects s"
  by (simp add: hideInstallBanner_def setTimeout_def split: option.split)

lemma deferredPrompt_hideInstallBanner [simp]:
  "deferredPrompt (hideInstallBanner s) = deferredPrompt s"
  by (simp add: hideInstallBanner_def setTimeout_def split: option.split)



lemma ref_modify [simp]: "ref (modify r fc fl e) = ref e"
  by (cases e) simp












section \<open>Runs of the push notification helper\<close>

lemmas prog_defs = ret_def throw_def bind_def try_catch_def emit_def call_def
  assign_pushSubscription_def

lemmas helper_defs = isNotificationAvailable_def isNotificationGranted_def
  isNotificationDenied_def getPushSubscription_def isCurrentPushSubscriptionAvailable_def
  generateSubscribeOptions_def pushSubscription_unsubscribe_def
  requestNotificationPermission_def

lemma yields_ret: "Q (Inr x) [] \<Longrightarrow> yields (ret x) Q"
  by (simp add: yields_def ret_def)

lemma yields_throw: "Q (Inl e) [] \<Longrightarrow> yields (throw e) Q"
  by (simp add: yields_def throw_def)

lemma yields_emit: "Q (Inr ()) [ev] \<Longrightarrow> yields (emit ev) Q"
  by (simp add: yields_def emit_def)

lemma yields_call:
  assumes "\<And>h e. answer h = Rejects e \<Longrightarrow> Q (Inl e) [ev]"
    and "\<And>h x. answer h = Resolves x \<Longrightarrow> Q (Inr x) [ev]"
  shows "yields (call ev answer) Q"
  unfolding yields_def call_def
proof
  fix s
  show "\<exists>es. trace (snd (case answer (trace s) of Rejects e \<Rightarrow> Inl e | Resolves x \<Rightarrow> Inr x,
                   s\<lparr>trace := trace s @ [ev]\<rparr>)) = trace s @ es
      \<and> Q (fst (case answer (trace s) of Rejects e \<Rightarrow> Inl e | Resolves x \<Rightarrow> Inr x,
                 s\<lparr>trace := trace s @ [ev]\<rparr>)) es"
    using assms[of "trace s"] by (simp split: outcome.split)
qed

lemma yields_bind:
  assumes "yields m (\<lambda>r es. case r of Inl e \<Rightarrow> Q (Inl e) es
                               | Inr x \<Rightarrow> yields (f x) (\<lambda>r' es'. Q r' (es @ es')))"
  shows "yields (bind m f) Q"
  unfolding yields_def
proof
  fix s
  from assms obtain es where m: "trace (snd (m s)) = trace s @ es"
    and q: "case fst (m s) of Inl e \<Rightarrow> Q (Inl e) es
            | Inr x \<Rightarrow> yields (f x) (\<lambda>r' es'. Q r' (es @ es'))"
    unfolding yields_def by blast
  show "\<exists>es. trace (snd (bind m f s)) = trace s @ es \<and> Q (fst (bind m f s)) es"
  proof (cases "fst (m s)")
    case (Inl e)
    then have "bind m f s = (Inl e, snd (m s))"
      by (cases "m s") (simp add: bind_def)
    then show ?thesis using m q Inl by auto
  next
    case (Inr x)
    then have b: "bind m f s = f x (snd (m s))"
      by (cases "m s") (simp add: bind_def)
    from q Inr have "yields (f x) (\<lambda>r' es'. Q r' (es @ es'))" by simp
    then obtain es' where "trace (snd (f x (snd (m s)))) = trace (snd (m s)) @ es'"
      and "Q (fst (f x (snd (m s)))) (es @ es')"
      unfolding yields_def by blast
    then show ?thesis using b m by (intro exI[of _ "es @ es'"]) simp
  qed
qed

lemma yields_try_catch:
  assumes "yields m (\<lambda>r es. case r of Inl e \<Rightarrow> yields (h e) (\<lambda>r' es'. Q r' (es @ es'))
                               | Inr x \<Rightarrow> Q (Inr x) es)"
  shows "yields (try_catch m h) Q"
  unfolding yields_def
proof
  fix s
  from assms obtain es where m: "trace (snd (m s)) = trace s @ es"
    and q: "case fst (m s) of Inl e \<Rightarrow> yields (h e) (\<lambda>r' es'. Q r' (es @ es'))
            | Inr x \<Rightarrow> Q (Inr x) es"
    unfolding yields_def by blast
  show "\<exists>es. trace (snd (try_catch m h s)) = trace s @ es \<and> Q (fst (try_catch m h s)) es"
  proof (cases "fst (m s)")
    case (Inr x)
    then have "try_catch m h s = (Inr x, snd (m s))"
      by (cases "m s") (simp add: try_catch_def)
    then show ?thesis using m q Inr by auto
  next
    case (Inl e)
    then have b: "try_catch m h s = h e (snd (m s))"
      by (cases "m s") (simp add: try_catch_def)
    from q Inl have "yields (h e) (\<lambda>r' es'. Q r' (es @ es'))" by simp
    then obtain es' where "trace (snd (h e (snd (m s)))) = trace (snd (m s)) @ es'"
      and "Q (fst (h e (snd (m s)))) (es @ es')"
      unfolding yields_def by blast
    then show ?thesis using b m by (intro exI[of _ "es @ es'"]) simp
  qed
qed

lemma yields_if:
  "(c \<Longrightarrow> yields a Q) \<Longrightarrow> (\<not> c \<Longrightarrow> yields b Q) \<Longrightarrow> yields (if c then a else b) Q"
  by simp

lemma yields_emitted: "yields m Q \<Longrightarrow> Q (fst (m s)) (emitted m s)"
  unfolding yields_def emitted_def
proof -
  assume "\<forall>s. \<exists>es. trace (snd (m s)) = trace s @ es \<and> Q (fst (m s)) es"
  then obtain es where "trace (snd (m s)) = trace s @ es" "Q (fst (m s)) es" by blast
  then show "Q (fst (m s)) (drop (length (trace s)) (trace (snd (m s))))" by simp
qed

lemmas yields_intros = yields_ret yields_throw yields_emit yields_call yields_bind
  yields_try_catch yields_if

lemma ok_iff: "ok r \<longleftrightarrow> r = \<lparr>ok = True\<rparr>" for r :: response
  by (cases r) auto

lemma perm_Granted: "x \<noteq> Denied \<Longrightarrow> x \<noteq> Default \<Longrightarrow> x = Granted"
  by (cases x) simp_all

lemma perm_Default: "x \<noteq> Denied \<Longrightarrow> x \<noteq> Granted \<Longrightarrow> x = Default"
  by (cases x) simp_all

lemma autoSubscribe_yields:
  "yields (autoSubscribe env)
     (\<lambda>r es. (r = Inr True \<or> r = Inr False)
        \<and> \<not> list_ex is_alert es \<and> list_ex is_log es
        \<and> (r = Inr True \<longrightarrow>
              isNotificationAvailable env
              \<and> ((\<exists>h sub. pushManager_getSubscription env h = Resolves (Some sub))
                  \<or> (permission_obtainable env \<and> remote_accepts env))))"
  unfolding autoSubscribe_def requestNotificationPermission_def isNotificationGranted_def
    isNotificationDenied_def getPushSubscription_def isCurrentPushSubscriptionAvailable_def
    generateSubscribeOptions_def
  by (auto intro!: yields_intros simp: permission_obtainable_def isNotificationAvailable_def
        remote_accepts_def ok_iff split: outcome.split)
     (blast dest: perm_Granted intro: perm_Default)+

lemma unsubscribe_yields:
  "yields (unsubscribe env)
     (\<lambda>r es. r = Inr ()
        \<and> (Alert successUnsubscribeMessage \<in> set es \<longrightarrow>
             (\<exists>h sub h' h''. pushManager_getSubscription env h = Resolves (Some sub)
                \<and> remote_unsubscribe env (endpoint sub) h' = Resolves \<lparr>ok = True\<rparr>
                \<and> platform_unsubscribe env sub h'' = Resolves True)))"
  unfolding unsubscribe_def getPushSubscription_def
  by (auto intro!: yields_intros simp: ok_iff successUnsubscribeMessage_def
        failureUnsubscribeMessage_def split: outcome.split option.split)
     blast+

lemma permission_granted_cases:
  assumes "permission_granted env"
  obtains "notification_in_window env" "permission env = Granted"
  | "notification_in_window env" "permission env = Default"
    "\<And>h. requestPermission env h = Resolves Granted"
  using assms unfolding permission_granted_def isNotificationAvailable_def by blast

section \<open>Permission\<close>

text \<open>
  C10. The result of \<open>requestNotificationPermission\<close> (a boolean, or the exception of a
  rejected prompt) does not depend on \<open>silent\<close>: from the same frame, on the same
  platform, the silent and the interactive call end alike. The silent call records what
  the interactive one records, less its alerts and its \<open>console.log\<close> message.
\<close>

theorem requestNotificationPermission_silent_independent:
  "fst (requestNotificationPermission True env s)
     = fst (requestNotificationPermission False env s)
   \<and> emitted (requestNotificationPermission True env) s
       = filter (\<lambda>e. case e of Alert _ \<Rightarrow> False | ConsoleLog _ \<Rightarrow> False | _ \<Rightarrow> True)
           (emitted (requestNotificationPermission False env) s)
   \<and> pushSubscription (snd (requestNotificationPermission True env s))
       = pushSubscription (snd (requestNotificationPermission False env s))"
proof (cases "notification_in_window env")
  case False
  then show ?thesis
    by (simp add: requestNotificationPermission_def isNotificationAvailable_def emitted_def
          prog_defs)
next
  case True
  show ?thesis
  proof (cases "permission env")
    case Granted
    then show ?thesis
      using True
      by (simp add: requestNotificationPermission_def isNotificationAvailable_def
            isNotificationGranted_def emitted_def prog_defs)
  next
    case Denied
    then show ?thesis
      using True
      by (simp add: requestNotificationPermission_def isNotificationAvailable_def
            isNotificationGranted_def isNotificationDenied_def emitted_def prog_defs)
  next
    case Default
    then show ?thesis
      using True
      by (cases "requestPermission env (trace s)")
         (simp_all add: requestNotificationPermission_def isNotificationAvailable_def
            isNotificationGranted_def isNotificationDenied_def emitted_def prog_defs)
  qed
qed

section \<open>Subscribing in the background\<close>

text \<open>
  C4. Let notifications be available and permission granted, let no subscription exist,
  let the platform subscribe succeed with a subscription, and let the remote
  \<open>subscribePushNotification\<close> report \<open>ok: false\<close>. Then \<open>autoSubscribe\<close> calls
  \<open>unsubscribe()\<close> on that subscription, once, after the remote call, and returns false
  (whatever the \<open>unsubscribe()\<close> call answers).
\<close>

theorem autoSubscribe_rollback:
  "permission_granted env \<and> not_subscribed env \<and> platform_subscribes env sub
   \<and> remote_subscribe_not_ok env sub
   \<longrightarrow> fst (autoSubscribe env s) = Inr False
       \<and> count_list (emitted (autoSubscribe env) s) (PushSubscriptionUnsubscribe sub) = 1
       \<and> precedes (SubscribePushNotification (endpoint sub) (keys sub))
               (PushSubscriptionUnsubscribe sub) (emitted (autoSubscribe env) s)"
proof (intro impI, elim conjE)
  assume p: "permission_granted env" and n: "not_subscribed env"
    and ps: "platform_subscribes env sub"
    and r: "remote_subscribe_not_ok env sub"
  from ps obtain k where k: "vapid_key_bytes env = Resolves k"
    and sub: "\<And>h. pushManager_subscribe env
                     \<lparr>userVisibleOnly = True, applicationServerKey = k\<rparr> h = Resolves sub"
    unfolding platform_subscribes_def by blast
  from n have rdy: "\<And>h. serviceWorker_ready env h = Resolves ()"
    and gs: "\<And>h. pushManager_getSubscription env h = Resolves None"
    unfolding not_subscribed_def by simp_all
  from r have rem: "\<And>h. remote_subscribe env (endpoint sub) (keys sub) h
                          = Resolves \<lparr>ok = False\<rparr>"
    unfolding remote_subscribe_not_ok_def by simp
  from p show "fst (autoSubscribe env s) = Inr False
       \<and> count_list (emitted (autoSubscribe env) s) (PushSubscriptionUnsubscribe sub) = 1
       \<and> precedes (SubscribePushNotification (endpoint sub) (keys sub))
               (PushSubscriptionUnsubscribe sub) (emitted (autoSubscribe env) s)"
  proof (cases rule: permission_granted_cases)
    case 1
    then show ?thesis
      by (simp add: autoSubscribe_def emitted_def precedes_def prog_defs helper_defs
            k sub rdy gs rem split: outcome.splits)
  next
    case 2
    then show ?thesis
      by (simp add: autoSubscribe_def emitted_def precedes_def prog_defs helper_defs
            k sub rdy gs rem split: outcome.splits)
  qed
qed

lemma platform_ok_facts:
  "permission_granted platform_ok" "not_subscribed platform_ok"
  "platform_subscribes platform_ok sub0" "never_subscribed platform_ok"
  by (simp_all add: permission_granted_def not_subscribed_def platform_subscribes_def
        never_subscribed_def isNotificationAvailable_def platform_ok_def)

lemma platform_remote_not_ok_facts:
  "permission_granted platform_remote_not_ok" "not_subscribed platform_remote_not_ok"
  "platform_subscribes platform_remote_not_ok sub0"
  "remote_subscribe_not_ok platform_remote_not_ok sub0"
  "never_subscribed platform_remote_not_ok"
  "\<forall>h e. platform_unsubscribe platform_remote_not_ok sub0 h \<noteq> Rejects e"
  by (simp_all add: permission_granted_def not_subscribed_def platform_subscribes_def
        remote_subscribe_not_ok_def never_subscribed_def isNotificationAvailable_def
        platform_remote_not_ok_def platform_ok_def)

theorem autoSubscribe_rollback_witness:
  "fst (autoSubscribe platform_remote_not_ok frame0) = Inr False
   \<and> count_list (emitted (autoSubscribe platform_remote_not_ok) frame0)
       (PushSubscriptionUnsubscribe sub0) = 1
   \<and> precedes (SubscribePushNotification (endpoint sub0) (keys sub0))
       (PushSubscriptionUnsubscribe sub0) (emitted (autoSubscribe platform_remote_not_ok) frame0)"
  using autoSubscribe_rollback[where env = platform_remote_not_ok and sub = sub0 and s = frame0]
    platform_remote_not_ok_facts
  by blast

text \<open>
  C5. \<open>autoSubscribe\<close> always returns a boolean, never alerts, and always logs at least
  once. It returns false when the notification API is unavailable; and, no subscription
  being reported, when permission is not granted after the silent request, when the
  platform never subscribes, when the remote API never reports success (it rejects or
  reports \<open>ok: false\<close>), and when after \<open>ok: false\<close> the rollback's \<open>unsubscribe()\<close>
  throws. When a subscription already exists it returns true after reading it and
  logging, without a call to \<open>pushManager.subscribe\<close>.
\<close>

theorem autoSubscribe_silent:
  "(fst (autoSubscribe env s) = Inr True \<or> fst (autoSubscribe env s) = Inr False)
   \<and> \<not> list_ex is_alert (emitted (autoSubscribe env) s)
   \<and> list_ex is_log (emitted (autoSubscribe env) s)
   \<and> (\<not> isNotificationAvailable env \<longrightarrow> fst (autoSubscribe env s) = Inr False)
   \<and> (never_subscribed env \<and> permission_refused env \<longrightarrow>
        fst (autoSubscribe env s) = Inr False)
   \<and> (never_subscribed env \<and> (\<forall>opts h sub. pushManager_subscribe env opts h \<noteq> Resolves sub)
        \<longrightarrow> fst (autoSubscribe env s) = Inr False)
   \<and> (never_subscribed env
        \<and> (\<forall>e k h. remote_subscribe env e k h \<noteq> Resolves \<lparr>ok = True\<rparr>) \<longrightarrow>
        fst (autoSubscribe env s) = Inr False)
   \<and> (never_subscribed env
        \<and> (\<forall>e k h. remote_subscribe env e k h = Resolves \<lparr>ok = False\<rparr>)
        \<and> (\<forall>sub h. platform_unsubscribe env sub h = Rejects x) \<longrightarrow>
        fst (autoSubscribe env s) = Inr False)
   \<and> (isNotificationAvailable env \<and> subscribed env sub \<longrightarrow>
        fst (autoSubscribe env s) = Inr True
        \<and> emitted (autoSubscribe env) s
            = [ServiceWorkerReady, GetSubscription,
               ConsoleLog ''[AutoSubscribe] Already subscribed to push notifications''])"
proof -
  note y = yields_emitted[OF autoSubscribe_yields, of env s]
  have bool: "fst (autoSubscribe env s) = Inr True \<or> fst (autoSubscribe env s) = Inr False"
    and quiet: "\<not> list_ex is_alert (emitted (autoSubscribe env) s)"
    and logs: "list_ex is_log (emitted (autoSubscribe env) s)"
    and true: "fst (autoSubscribe env s) = Inr True \<Longrightarrow>
               isNotificationAvailable env
               \<and> ((\<exists>h sub. pushManager_getSubscription env h = Resolves (Some sub))
                   \<or> (permission_obtainable env \<and> remote_accepts env))"
    using y[THEN conjunct1] y[THEN conjunct2, THEN conjunct1]
      y[THEN conjunct2, THEN conjunct2, THEN conjunct1]
      y[THEN conjunct2, THEN conjunct2, THEN conjunct2, THEN mp]
    by this+
  have unavailable: "fst (autoSubscribe env s) = Inr False" if "\<not> isNotificationAvailable env"
    using that bool true by blast
  have refused: "fst (autoSubscribe env s) = Inr False"
    if "never_subscribed env \<and> permission_refused env"
    using that bool true
    unfolding never_subscribed_def permission_refused_def permission_obtainable_def
    by blast
  have no_platform: "fst (autoSubscribe env s) = Inr False"
    if "never_subscribed env \<and> (\<forall>opts h sub. pushManager_subscribe env opts h \<noteq> Resolves sub)"
    using that bool true unfolding never_subscribed_def remote_accepts_def by blast
  have no_remote: "fst (autoSubscribe env s) = Inr False"
    if "never_subscribed env \<and> (\<forall>e k h. remote_subscribe env e k h \<noteq> Resolves \<lparr>ok = True\<rparr>)"
    using that bool true unfolding never_subscribed_def remote_accepts_def by blast
  have no_rollback: "fst (autoSubscribe env s) = Inr False"
    if "never_subscribed env
        \<and> (\<forall>e k h. remote_subscribe env e k h = Resolves \<lparr>ok = False\<rparr>)
        \<and> (\<forall>sub h. platform_unsubscribe env sub h = Rejects x)"
  proof -
    have "\<forall>e k h. remote_subscribe env e k h \<noteq> Resolves \<lparr>ok = True\<rparr>"
      using that by simp
    then show ?thesis using that no_remote by blast
  qed
  have already: "fst (autoSubscribe env s) = Inr True
        \<and> emitted (autoSubscribe env) s
            = [ServiceWorkerReady, GetSubscription,
               ConsoleLog ''[AutoSubscribe] Already subscribed to push notifications'']"
    if "isNotificationAvailable env \<and> subscribed env sub"
    using that
    by (simp add: subscribed_def autoSubscribe_def emitted_def prog_defs helper_defs)
  show ?thesis
    apply (intro conjI)
            apply (rule bool)
           apply (rule quiet)
          apply (rule logs)
         apply (rule impI, erule unavailable)
        apply (rule impI, erule refused)
       apply (rule impI, erule no_platform)
      apply (rule impI, erule no_remote)
     apply (rule impI, erule no_rollback)
    apply (rule impI, erule already)
    done
qed

lemma platform_facts:
  "\<not> isNotificationAvailable platform_unavailable"
  "never_subscribed platform_denied" "permission_refused platform_denied"
  "never_subscribed platform_subscribe_rejects"
  "\<forall>opts h sub. pushManager_subscribe platform_subscribe_rejects opts h \<noteq> Resolves sub"
  "never_subscribed platform_remote_throws"
  "\<forall>e k h. remote_subscribe platform_remote_throws e k h \<noteq> Resolves \<lparr>ok = True\<rparr>"
  "never_subscribed platform_rollback_throws"
  "\<forall>e k h. remote_subscribe platform_rollback_throws e k h = Resolves \<lparr>ok = False\<rparr>"
  "\<forall>sub h. platform_unsubscribe platform_rollback_throws sub h = Rejects (Thrown ''AbortError'')"
  "isNotificationAvailable platform_subscribed" "subscribed platform_subscribed sub0"
  by (simp_all add: never_subscribed_def permission_refused_def subscribed_def
        isNotificationAvailable_def platform_unavailable_def platform_denied_def
        platform_subscribe_rejects_def platform_remote_throws_def platform_rollback_throws_def
        platform_remote_not_ok_def platform_subscribed_def platform_ok_def)

theorem autoSubscribe_silent_witness:
  "fst (autoSubscribe platform_unavailable frame0) = Inr False
   \<and> \<not> list_ex is_alert (emitted (autoSubscribe platform_unavailable) frame0)
   \<and> list_ex is_log (emitted (autoSubscribe platform_unavailable) frame0)
   \<and> fst (autoSubscribe platform_denied frame0) = Inr False
   \<and> \<not> list_ex is_alert (emitted (autoSubscribe platform_denied) frame0)
   \<and> fst (autoSubscribe platform_subscribe_rejects frame0) = Inr False
   \<and> fst (autoSubscribe platform_remote_throws frame0) = Inr False
   \<and> fst (autoSubscribe platform_rollback_throws frame0) = Inr False
   \<and> \<not> list_ex is_alert (emitted (autoSubscribe platform_rollback_throws) frame0)
   \<and> fst (autoSubscribe platform_subscribed frame0) = Inr True
   \<and> emitted (autoSubscribe platform_subscribed) frame0
       = [ServiceWorkerReady, GetSubscription,
          ConsoleLog ''[AutoSubscribe] Already subscribed to push notifications'']"
proof -
  note c2 = conjunct2[THEN conjunct1]
  note c3 = conjunct2[THEN conjunct2, THEN conjunct1]
  note c4 = conjunct2[THEN conjunct2, THEN conjunct2, THEN conjunct1]
  note c5 = conjunct2[THEN conjunct2, THEN conjunct2, THEN conjunct2, THEN conjunct1]
  note c6 = conjunct2[THEN conjunct2, THEN conjunct2, THEN conjunct2, THEN conjunct2,
      THEN conjunct1]
  note c7 = conjunct2[THEN conjunct2, THEN conjunct2, THEN conjunct2, THEN conjunct2,
      THEN conjunct2, THEN conjunct1]
  note c8 = conjunct2[THEN conjunct2, THEN conjunct2, THEN conjunct2, THEN conjunct2,
      THEN conjunct2, THEN conjunct2, THEN conjunct1]
  note c9 = conjunct2[THEN conjunct2, THEN conjunct2, THEN conjunct2, THEN conjunct2,
      THEN conjunct2, THEN conjunct2, THEN conjunct2]
  note unavailable = autoSubscribe_silent[where env = platform_unavailable and s = frame0]
  note denied = autoSubscribe_silent[where env = platform_denied and s = frame0]
  note rejects = autoSubscribe_silent[where env = platform_subscribe_rejects and s = frame0]
  note throws = autoSubscribe_silent[where env = platform_remote_throws and s = frame0]
  note rollback = autoSubscribe_silent[where env = platform_rollback_throws and s = frame0
      and x = "Thrown ''AbortError''"]
  note already = autoSubscribe_silent[where env = platform_subscribed and s = frame0
      and sub = sub0]
  show ?thesis
    apply (intro conjI)
              apply (rule unavailable[THEN c4, THEN mp, OF platform_facts(1)])
             apply (rule unavailable[THEN c2])
            apply (rule unavailable[THEN c3])
           apply (rule denied[THEN c5, THEN mp, OF conjI[OF platform_facts(2,3)]])
          apply (rule denied[THEN c2])
         apply (rule rejects[THEN c6, THEN mp, OF conjI[OF platform_facts(4,5)]])
        apply (rule throws[THEN c7, THEN mp, OF conjI[OF platform_facts(6,7)]])
       apply (rule rollback[THEN c8, THEN mp,
                OF conjI[OF platform_facts(8) conjI[OF platform_facts(9,10)]]])
      apply (rule rollback[THEN c2])
     apply (rule already[THEN c9, THEN mp, OF conjI[OF platform_facts(11,12)], THEN conjunct1])
    apply (rule already[THEN c9, THEN mp, OF conjI[OF platform_facts(11,12)], THEN conjunct2])
    done
qed

section \<open>Subscribing interactively\<close>

lemma emitted_subscribe_remote_not_ok:
  "emitted (subscribe platform_remote_not_ok) frame0 =
     [ServiceWorkerReady, GetSubscription, ConsoleLog ''Mulai berlangganan push notification...'',
      ServiceWorkerReady, PushManagerSubscribe opts0,
      SubscribePushNotification (endpoint sub0) (keys sub0),
      ConsoleError ''subscribe: response:'', Alert failureSubscribeMessage,
      PushSubscriptionUnsubscribe sub0]"
  by (simp add: subscribe_def emitted_def prog_defs helper_defs platform_remote_not_ok_def
        platform_ok_def frame0_def opts0_def)

lemma emitted_subscribe_rollback_throws:
  "emitted (subscribe platform_rollback_throws) frame0 =
     [ServiceWorkerReady, GetSubscription, ConsoleLog ''Mulai berlangganan push notification...'',
      ServiceWorkerReady, PushManagerSubscribe opts0,
      SubscribePushNotification (endpoint sub0) (keys sub0),
      ConsoleError ''subscribe: response:'', Alert failureSubscribeMessage,
      PushSubscriptionUnsubscribe sub0,
      ConsoleError ''subscribe: error:'', Alert failureSubscribeMessage,
      PushSubscriptionUnsubscribe sub0]"
  by (simp add: subscribe_def emitted_def prog_defs helper_defs platform_rollback_throws_def
        platform_remote_not_ok_def platform_ok_def frame0_def opts0_def)

text \<open>
  C3, as stated, fails. With permission granted, no prior subscription, a successful
  platform subscribe and a remote answer \<open>{ok: false}\<close>, \<open>subscribe\<close> alerts the failure
  first and calls \<open>unsubscribe()\<close> after it, not before. And when that \<open>unsubscribe()\<close>
  throws, the \<open>catch\<close> block alerts and calls \<open>unsubscribe()\<close> a second time.
\<close>

theorem subscribe_rollback_order_counterexample:
  "emitted (subscribe platform_remote_not_ok) frame0 =
     [ServiceWorkerReady, GetSubscription, ConsoleLog ''Mulai berlangganan push notification...'',
      ServiceWorkerReady, PushManagerSubscribe opts0,
      SubscribePushNotification (endpoint sub0) (keys sub0),
      ConsoleError ''subscribe: response:'', Alert failureSubscribeMessage,
      PushSubscriptionUnsubscribe sub0]
   \<and> \<not> precedes (PushSubscriptionUnsubscribe sub0) (Alert failureSubscribeMessage)
         (emitted (subscribe platform_remote_not_ok) frame0)
   \<and> count_list (emitted (subscribe platform_rollback_throws) frame0)
        (PushSubscriptionUnsubscribe sub0) = 2
   \<and> count_list (emitted (subscribe platform_rollback_throws) frame0)
        (Alert failureSubscribeMessage) = 2"
  by (simp add: emitted_subscribe_remote_not_ok emitted_subscribe_rollback_throws
        precedes_def)

text \<open>
  C3, amended. Let permission be granted, let no prior subscription exist and let the
  platform subscribe succeed with a subscription. When the remote
  \<open>subscribePushNotification\<close> resolves \<open>{ok: false}\<close>, the failure alert is surfaced before
  \<open>unsubscribe()\<close> is attempted on the new subscription; and when that \<open>unsubscribe()\<close>
  does not throw, it is invoked exactly once, the failure alert is the only alert, and
  \<open>subscribe\<close> returns. When the remote call throws instead, the failure alert is again
  surfaced before the \<open>unsubscribe()\<close>, and each happens exactly once.
\<close>

theorem subscribe_rollback_order:
  "permission_granted env \<and> not_subscribed env \<and> platform_subscribes env sub \<longrightarrow>
     (remote_subscribe_not_ok env sub \<longrightarrow>
        precedes (Alert failureSubscribeMessage) (PushSubscriptionUnsubscribe sub)
          (emitted (subscribe env) s)
        \<and> \<not> precedes (PushSubscriptionUnsubscribe sub) (Alert failureSubscribeMessage)
              (emitted (subscribe env) s))
     \<and> (remote_subscribe_not_ok env sub
          \<and> (\<forall>h e. platform_unsubscribe env sub h \<noteq> Rejects e) \<longrightarrow>
        fst (subscribe env s) = Inr ()
        \<and> count_list (emitted (subscribe env) s) (PushSubscriptionUnsubscribe sub) = 1
        \<and> filter is_alert (emitted (subscribe env) s) = [Alert failureSubscribeMessage])
     \<and> ((\<forall>h r. remote_subscribe env (endpoint sub) (keys sub) h \<noteq> Resolves r) \<longrightarrow>
        precedes (Alert failureSubscribeMessage) (PushSubscriptionUnsubscribe sub)
          (emitted (subscribe env) s)
        \<and> \<not> precedes (PushSubscriptionUnsubscribe sub) (Alert failureSubscribeMessage)
              (emitted (subscribe env) s)
        \<and> count_list (emitted (subscribe env) s) (PushSubscriptionUnsubscribe sub) = 1
        \<and> filter is_alert (emitted (subscribe env) s) = [Alert failureSubscribeMessage])"
proof (intro impI, elim conjE)
  assume p: "permission_granted env" and n: "not_subscribed env"
    and ps: "platform_subscribes env sub"
  from ps obtain k where k: "vapid_key_bytes env = Resolves k"
    and sub: "\<And>h. pushManager_subscribe env
                     \<lparr>userVisibleOnly = True, applicationServerKey = k\<rparr> h = Resolves sub"
    unfolding platform_subscribes_def by blast
  from n have rdy: "\<And>h. serviceWorker_ready env h = Resolves ()"
    and gs: "\<And>h. pushManager_getSubscription env h = Resolves None"
    unfolding not_subscribed_def by simp_all
  note ev = subscribe_def emitted_def precedes_def prog_defs helper_defs k sub rdy gs
  have order: "precedes (Alert failureSubscribeMessage) (PushSubscriptionUnsubscribe sub)
          (emitted (subscribe env) s)
        \<and> \<not> precedes (PushSubscriptionUnsubscribe sub) (Alert failureSubscribeMessage)
              (emitted (subscribe env) s)"
    if "remote_subscribe_not_ok env sub"
  proof -
    from that have rem: "\<And>h. remote_subscribe env (endpoint sub) (keys sub) h
                          = Resolves \<lparr>ok = False\<rparr>"
      unfolding remote_subscribe_not_ok_def by simp
    from p show ?thesis
      by (cases rule: permission_granted_cases) (simp_all add: ev rem split: outcome.splits)
  qed
  have once: "fst (subscribe env s) = Inr ()
        \<and> count_list (emitted (subscribe env) s) (PushSubscriptionUnsubscribe sub) = 1
        \<and> filter is_alert (emitted (subscribe env) s) = [Alert failureSubscribeMessage]"
    if "remote_subscribe_not_ok env sub \<and> (\<forall>h e. platform_unsubscribe env sub h \<noteq> Rejects e)"
  proof -
    from that have rem: "\<And>h. remote_subscribe env (endpoint sub) (keys sub) h
                          = Resolves \<lparr>ok = False\<rparr>"
      and un: "\<And>h e. platform_unsubscribe env sub h \<noteq> Rejects e"
      unfolding remote_subscribe_not_ok_def by simp_all
    from p show ?thesis
      by (cases rule: permission_granted_cases) (simp_all add: ev rem un split: outcome.splits)
  qed
  have thrown: "precedes (Alert failureSubscribeMessage) (PushSubscriptionUnsubscribe sub)
          (emitted (subscribe env) s)
        \<and> \<not> precedes (PushSubscriptionUnsubscribe sub) (Alert failureSubscribeMessage)
              (emitted (subscribe env) s)
        \<and> count_list (emitted (subscribe env) s) (PushSubscriptionUnsubscribe sub) = 1
        \<and> filter is_alert (emitted (subscribe env) s) = [Alert failureSubscribeMessage]"
    if "\<forall>h r. remote_subscribe env (endpoint sub) (keys sub) h \<noteq> Resolves r"
  proof -
    from that have rem: "\<And>h r. remote_subscribe env (endpoint sub) (keys sub) h \<noteq> Resolves r"
      by simp
    from p show ?thesis
      by (cases rule: permission_granted_cases) (simp_all add: ev rem split: outcome.splits)
  qed
  show "(remote_subscribe_not_ok env sub \<longrightarrow>
        precedes (Alert failureSubscribeMessage) (PushSubscriptionUnsubscribe sub)
          (emitted (subscribe env) s)
        \<and> \<not> precedes (PushSubscriptionUnsubscribe sub) (Alert failureSubscribeMessage)
              (emitted (subscribe env) s))
     \<and> (remote_subscribe_not_ok env sub
          \<and> (\<forall>h e. platform_unsubscribe env sub h \<noteq> Rejects e) \<longrightarrow>
        fst (subscribe env s) = Inr ()
        \<and> count_list (emitted (subscribe env) s) (PushSubscriptionUnsubscribe sub) = 1
        \<and> filter is_alert (emitted (subscribe env) s) = [Alert failureSubscribeMessage])
     \<and> ((\<forall>h r. remote_subscribe env (endpoint sub) (keys sub) h \<noteq> Resolves r) \<longrightarrow>
        precedes (Alert failureSubscribeMessage) (PushSubscriptionUnsubscribe sub)
          (emitted (subscribe env) s)
        \<and> \<not> precedes (PushSubscriptionUnsubscribe sub) (Alert failureSubscribeMessage)
              (emitted (subscribe env) s)
        \<and> count_list (emitted (subscribe env) s) (PushSubscriptionUnsubscribe sub) = 1
        \<and> filter is_alert (emitted (subscribe env) s) = [Alert failureSubscribeMessage])"
    apply (intro conjI)
      apply (rule impI, erule order)
     apply (rule impI, erule once)
    apply (rule impI, erule thrown)
    done
qed

lemma platform_remote_throws_facts:
  "permission_granted platform_remote_throws" "not_subscribed platform_remote_throws"
  "platform_subscribes platform_remote_throws sub0"
  "\<forall>h r. remote_subscribe platform_remote_throws (endpoint sub0) (keys sub0) h \<noteq> Resolves r"
  by (simp_all add: permission_granted_def not_subscribed_def platform_subscribes_def
        isNotificationAvailable_def platform_remote_throws_def platform_ok_def)

theorem subscribe_rollback_order_witness:
  "precedes (Alert failureSubscribeMessage) (PushSubscriptionUnsubscribe sub0)
     (emitted (subscribe platform_remote_not_ok) frame0)
   \<and> fst (subscribe platform_remote_not_ok frame0) = Inr ()
   \<and> count_list (emitted (subscribe platform_remote_not_ok) frame0)
        (PushSubscriptionUnsubscribe sub0) = 1
   \<and> filter is_alert (emitted (subscribe platform_remote_not_ok) frame0)
        = [Alert failureSubscribeMessage]
   \<and> precedes (Alert failureSubscribeMessage) (PushSubscriptionUnsubscribe sub0)
        (emitted (subscribe platform_remote_throws) frame0)
   \<and> count_list (emitted (subscribe platform_remote_throws) frame0)
        (PushSubscriptionUnsubscribe sub0) = 1"
proof -
  note a = subscribe_rollback_order[where env = platform_remote_not_ok and sub = sub0
      and s = frame0, THEN mp,
      OF conjI[OF platform_remote_not_ok_facts(1) conjI[OF platform_remote_not_ok_facts(2,3)]]]
  note b = subscribe_rollback_order[where env = platform_remote_throws and sub = sub0
      and s = frame0, THEN mp,
      OF conjI[OF platform_remote_throws_facts(1) conjI[OF platform_remote_throws_facts(2,3)]]]
  note a1 = a[THEN conjunct1, THEN mp, OF platform_remote_not_ok_facts(4)]
  note a2 = a[THEN conjunct2, THEN conjunct1, THEN mp,
      OF conjI[OF platform_remote_not_ok_facts(4) platform_remote_not_ok_facts(6)]]
  note b3 = b[THEN conjunct2, THEN conjunct2, THEN mp, OF platform_remote_throws_facts(4)]
  show ?thesis
    using a1 a2 b3 by blast
qed

section \<open>Unsubscribing\<close>

text \<open>
  C6. Let a current subscription exist. When the remote \<open>unsubscribePushNotification\<close>
  reports \<open>ok: false\<close>, \<open>unsubscribe\<close> alerts the failure, logs, and stops: the platform
  \<open>unsubscribe()\<close> is not called. When the remote call succeeds and the platform
  \<open>unsubscribe()\<close> resolves false, the failure is alerted and the remote subscribe API is
  then called with the endpoint and keys of the subscription; success is not alerted.
  When both succeed, success is alerted. And on every platform, success is alerted only
  if a subscription was reported, the remote call for its endpoint resolved \<open>ok: true\<close>,
  and its platform \<open>unsubscribe()\<close> resolved true.
\<close>

theorem unsubscribe_two_steps:
  "(subscribed env sub \<longrightarrow>
      ((\<forall>h. remote_unsubscribe env (endpoint sub) h = Resolves \<lparr>ok = False\<rparr>) \<longrightarrow>
         fst (unsubscribe env s) = Inr ()
         \<and> emitted (unsubscribe env) s =
             [ServiceWorkerReady, GetSubscription, UnsubscribePushNotification (endpoint sub),
              Alert failureUnsubscribeMessage, ConsoleError ''unsubscribe: response:''])
      \<and> ((\<forall>h. remote_unsubscribe env (endpoint sub) h = Resolves \<lparr>ok = True\<rparr>)
           \<and> (\<forall>h. platform_unsubscribe env sub h = Resolves False) \<longrightarrow>
         fst (unsubscribe env s) = Inr ()
         \<and> take 6 (emitted (unsubscribe env) s) =
             [ServiceWorkerReady, GetSubscription, UnsubscribePushNotification (endpoint sub),
              PushSubscriptionUnsubscribe sub, Alert failureUnsubscribeMessage,
              SubscribePushNotification (endpoint sub) (keys sub)]
         \<and> Alert successUnsubscribeMessage \<notin> set (emitted (unsubscribe env) s))
      \<and> ((\<forall>h. remote_unsubscribe env (endpoint sub) h = Resolves \<lparr>ok = True\<rparr>)
           \<and> (\<forall>h. platform_unsubscribe env sub h = Resolves True) \<longrightarrow>
         fst (unsubscribe env s) = Inr ()
         \<and> emitted (unsubscribe env) s =
             [ServiceWorkerReady, GetSubscription, UnsubscribePushNotification (endpoint sub),
              PushSubscriptionUnsubscribe sub, Alert successUnsubscribeMessage]))
   \<and> (Alert successUnsubscribeMessage \<in> set (emitted (unsubscribe env) s) \<longrightarrow>
        (\<exists>h sub h' h''. pushManager_getSubscription env h = Resolves (Some sub)
           \<and> remote_unsubscribe env (endpoint sub) h' = Resolves \<lparr>ok = True\<rparr>
           \<and> platform_unsubscribe env sub h'' = Resolves True))"
proof (rule conjI)
  show "subscribed env sub \<longrightarrow>
      ((\<forall>h. remote_unsubscribe env (endpoint sub) h = Resolves \<lparr>ok = False\<rparr>) \<longrightarrow>
         fst (unsubscribe env s) = Inr ()
         \<and> emitted (unsubscribe env) s =
             [ServiceWorkerReady, GetSubscription, UnsubscribePushNotification (endpoint sub),
              Alert failureUnsubscribeMessage, ConsoleError ''unsubscribe: response:''])
      \<and> ((\<forall>h. remote_unsubscribe env (endpoint sub) h = Resolves \<lparr>ok = True\<rparr>)
           \<and> (\<forall>h. platform_unsubscribe env sub h = Resolves False) \<longrightarrow>
         fst (unsubscribe env s) = Inr ()
         \<and> take 6 (emitted (unsubscribe env) s) =
             [ServiceWorkerReady, GetSubscription, UnsubscribePushNotification (endpoint sub),
              PushSubscriptionUnsubscribe sub, Alert failureUnsubscribeMessage,
              SubscribePushNotification (endpoint sub) (keys sub)]
         \<and> Alert successUnsubscribeMessage \<notin> set (emitted (unsubscribe env) s))
      \<and> ((\<forall>h. remote_unsubscribe env (endpoint sub) h = Resolves \<lparr>ok = True\<rparr>)
           \<and> (\<forall>h. platform_unsubscribe env sub h = Resolves True) \<longrightarrow>
         fst (unsubscribe env s) = Inr ()
         \<and> emitted (unsubscribe env) s =
             [ServiceWorkerReady, GetSubscription, UnsubscribePushNotification (endpoint sub),
              PushSubscriptionUnsubscribe sub, Alert successUnsubscribeMessage])"
  proof (rule impI)
    assume sb: "subscribed env sub"
    have refused: "fst (unsubscribe env s) = Inr ()
         \<and> emitted (unsubscribe env) s =
             [ServiceWorkerReady, GetSubscription, UnsubscribePushNotification (endpoint sub),
              Alert failureUnsubscribeMessage, ConsoleError ''unsubscribe: response:'']"
      if "\<forall>h. remote_unsubscribe env (endpoint sub) h = Resolves \<lparr>ok = False\<rparr>"
      using sb that
      by (simp add: subscribed_def unsubscribe_def emitted_def prog_defs helper_defs)
    have kept: "fst (unsubscribe env s) = Inr ()
         \<and> take 6 (emitted (unsubscribe env) s) =
             [ServiceWorkerReady, GetSubscription, UnsubscribePushNotification (endpoint sub),
              PushSubscriptionUnsubscribe sub, Alert failureUnsubscribeMessage,
              SubscribePushNotification (endpoint sub) (keys sub)]
         \<and> Alert successUnsubscribeMessage \<notin> set (emitted (unsubscribe env) s)"
      if "(\<forall>h. remote_unsubscribe env (endpoint sub) h = Resolves \<lparr>ok = True\<rparr>)
           \<and> (\<forall>h. platform_unsubscribe env sub h = Resolves False)"
      using sb that
      by (simp add: subscribed_def unsubscribe_def emitted_def prog_defs helper_defs
            successUnsubscribeMessage_def failureUnsubscribeMessage_def split: outcome.splits)
    have both: "fst (unsubscribe env s) = Inr ()
         \<and> emitted (unsubscribe env) s =
             [ServiceWorkerReady, GetSubscription, UnsubscribePushNotification (endpoint sub),
              PushSubscriptionUnsubscribe sub, Alert successUnsubscribeMessage]"
      if "(\<forall>h. remote_unsubscribe env (endpoint sub) h = Resolves \<lparr>ok = True\<rparr>)
           \<and> (\<forall>h. platform_unsubscribe env sub h = Resolves True)"
      using sb that
      by (simp add: subscribed_def unsubscribe_def emitted_def prog_defs helper_defs)
    show "((\<forall>h. remote_unsubscribe env (endpoint sub) h = Resolves \<lparr>ok = False\<rparr>) \<longrightarrow>
         fst (unsubscribe env s) = Inr ()
         \<and> emitted (unsubscribe env) s =
             [ServiceWorkerReady, GetSubscription, UnsubscribePushNotification (endpoint sub),
              Alert failureUnsubscribeMessage, ConsoleError ''unsubscribe: response:''])
      \<and> ((\<forall>h. remote_unsubscribe env (endpoint sub) h = Resolves \<lparr>ok = True\<rparr>)
           \<and> (\<forall>h. platform_unsubscribe env sub h = Resolves False) \<longrightarrow>
         fst (unsubscribe env s) = Inr ()
         \<and> take 6 (emitted (unsubscribe env) s) =
             [ServiceWorkerReady, GetSubscription, UnsubscribePushNotification (endpoint sub),
              PushSubscriptionUnsubscribe sub, Alert failureUnsubscribeMessage,
              SubscribePushNotification (endpoint sub) (keys sub)]
         \<and> Alert successUnsubscribeMessage \<notin> set (emitted (unsubscribe env) s))
      \<and> ((\<forall>h. remote_unsubscribe env (endpoint sub) h = Resolves \<lparr>ok = True\<rparr>)
           \<and> (\<forall>h. platform_unsubscribe env sub h = Resolves True) \<longrightarrow>
         fst (unsubscribe env s) = Inr ()
         \<and> emitted (unsubscribe env) s =
             [ServiceWorkerReady, GetSubscription, UnsubscribePushNotification (endpoint sub),
              PushSubscriptionUnsubscribe sub, Alert successUnsubscribeMessage])"
      apply (intro conjI)
        apply (rule impI, erule refused)
       apply (rule impI, erule kept)
      apply (rule impI, erule both)
      done
  qed
  show "Alert successUnsubscribeMessage \<in> set (emitted (unsubscribe env) s) \<longrightarrow>
        (\<exists>h sub h' h''. pushManager_getSubscription env h = Resolves (Some sub)
           \<and> remote_unsubscribe env (endpoint sub) h' = Resolves \<lparr>ok = True\<rparr>
           \<and> platform_unsubscribe env sub h'' = Resolves True)"
    by (rule yields_emitted[OF unsubscribe_yields, of env s, THEN conjunct2])
qed

lemma platform_unsubscribe_facts:
  "subscribed platform_remote_unsubscribe_not_ok sub0"
  "\<forall>h. remote_unsubscribe platform_remote_unsubscribe_not_ok (endpoint sub0) h
         = Resolves \<lparr>ok = False\<rparr>"
  "subscribed platform_unsubscribe_false sub0"
  "(\<forall>h. remote_unsubscribe platform_unsubscribe_false (endpoint sub0) h = Resolves \<lparr>ok = True\<rparr>)
   \<and> (\<forall>h. platform_unsubscribe platform_unsubscribe_false sub0 h = Resolves False)"
  "subscribed platform_subscribed sub0"
  "(\<forall>h. remote_unsubscribe platform_subscribed (endpoint sub0) h = Resolves \<lparr>ok = True\<rparr>)
   \<and> (\<forall>h. platform_unsubscribe platform_subscribed sub0 h = Resolves True)"
  by (simp_all add: subscribed_def platform_remote_unsubscribe_not_ok_def
        platform_unsubscribe_false_def platform_subscribed_def platform_ok_def)

theorem unsubscribe_two_steps_witness:
  "emitted (unsubscribe platform_remote_unsubscribe_not_ok) frame0 =
     [ServiceWorkerReady, GetSubscription, UnsubscribePushNotification (endpoint sub0),
      Alert failureUnsubscribeMessage, ConsoleError ''unsubscribe: response:'']
   \<and> take 6 (emitted (unsubscribe platform_unsubscribe_false) frame0) =
       [ServiceWorkerReady, GetSubscription, UnsubscribePushNotification (endpoint sub0),
        PushSubscriptionUnsubscribe sub0, Alert failureUnsubscribeMessage,
        SubscribePushNotification (endpoint sub0) (keys sub0)]
   \<and> Alert successUnsubscribeMessage
       \<notin> set (emitted (unsubscribe platform_unsubscribe_false) frame0)
   \<and> emitted (unsubscribe platform_subscribed) frame0 =
       [ServiceWorkerReady, GetSubscription, UnsubscribePushNotification (endpoint sub0),
        PushSubscriptionUnsubscribe sub0, Alert successUnsubscribeMessage]"
proof -
  note a = unsubscribe_two_steps[where env = platform_remote_unsubscribe_not_ok and sub = sub0
      and s = frame0, THEN conjunct1, THEN mp, OF platform_unsubscribe_facts(1),
      THEN conjunct1, THEN mp, OF platform_unsubscribe_facts(2)]
  note b = unsubscribe_two_steps[where env = platform_unsubscribe_false and sub = sub0
      and s = frame0, THEN conjunct1, THEN mp, OF platform_unsubscribe_facts(3),
      THEN conjunct2, THEN conjunct1, THEN mp, OF platform_unsubscribe_facts(4)]
  note c = unsubscribe_two_steps[where env = platform_subscribed and sub = sub0
      and s = frame0, THEN conjunct1, THEN mp, OF platform_unsubscribe_facts(5),
      THEN conjunct2, THEN conjunct2, THEN mp, OF platform_unsubscribe_facts(6)]
  show ?thesis
    using a b c by blast
qed

section \<open>Exceptions leaving the entry points\<close>

text \<open>
  C2 asks that no exception leaves \<open>subscribe\<close>, \<open>unsubscribe\<close> or \<open>autoSubscribe\<close>. That
  holds of \<open>unsubscribe\<close> and \<open>autoSubscribe\<close> on every platform. It fails for
  \<open>subscribe\<close>: when \<open>pushManager.subscribe\<close> rejects, the local \<open>pushSubscription\<close> is
  still \<open>undefined\<close>, and the \<open>catch\<close> block, after the alert, reads
  \<open>pushSubscription.unsubscribe\<close>; the \<open>TypeError\<close> leaves the function.
\<close>

theorem subscribe_catch_throws:
  "fst (unsubscribe env s) = Inr ()
   \<and> (fst (autoSubscribe env s) = Inr True \<or> fst (autoSubscribe env s) = Inr False)
   \<and> subscribe platform_subscribe_rejects frame0 =
       (Inl (TypeError ''Cannot read properties of undefined (reading unsubscribe)''),
        \<lparr>trace =
           [ServiceWorkerReady, GetSubscription,
            ConsoleLog ''Mulai berlangganan push notification...'',
            ServiceWorkerReady, PushManagerSubscribe opts0,
            ConsoleError ''subscribe: error:'', Alert failureSubscribeMessage],
         pushSubscription = None\<rparr>)"
proof (intro conjI)
  show "fst (unsubscribe env s) = Inr ()"
    by (rule yields_emitted[OF unsubscribe_yields, of env s, THEN conjunct1])
  show "fst (autoSubscribe env s) = Inr True \<or> fst (autoSubscribe env s) = Inr False"
    by (rule yields_emitted[OF autoSubscribe_yields, of env s, THEN conjunct1])
  show "subscribe platform_subscribe_rejects frame0 =
       (Inl (TypeError ''Cannot read properties of undefined (reading unsubscribe)''),
        \<lparr>trace =
           [ServiceWorkerReady, GetSubscription,
            ConsoleLog ''Mulai berlangganan push notification...'',
            ServiceWorkerReady, PushManagerSubscribe opts0,
            ConsoleError ''subscribe: error:'', Alert failureSubscribeMessage],
         pushSubscription = None\<rparr>)"
    by (simp add: subscribe_def prog_defs helper_defs platform_subscribe_rejects_def
          platform_ok_def frame0_def opts0_def)
qed

end
